theory Spec2Isabelle
  imports Main "HOL-Library.AList"
begin

section \<open>Python values\<close>

text \<open>
  Everything the class \<open>vswitch\<close> of \<open>cvbn_vswitch.py\<close> handles is a decoded JSON value:
  identifiers, request parameters, the resources a walk returns. Python's \<open>None\<close> is
  \<open>JNull\<close>. A dictionary is an association list; the code only ever compares values with
  strings and with \<open>None\<close>, where structural equality is Python's \<open>==\<close>.
\<close>

datatype json =
    JNull
  | JBool bool
  | JStr string
  | JArr "json list"
  | JObj "(string \<times> json) list"

text \<open>
  \<open>CvbnApiFailure\<close> is the exception of the module; the other three are the built-in
  exceptions that subscripting and iteration raise, which no handler of the module catches
  (every \<open>try\<close> block wraps the \<open>invoke\<close> call alone).
\<close>

datatype error = CvbnApiFailure | KeyError | IndexError | TypeError

fun subscript :: "json \<Rightarrow> string \<Rightarrow> error + json" where
  "subscript (JObj kvs) k = (case map_of kvs k of None \<Rightarrow> Inl KeyError | Some v \<Rightarrow> Inr v)"
| "subscript JNull k = Inl TypeError"
| "subscript (JBool b) k = Inl TypeError"
| "subscript (JStr s) k = Inl TypeError"
| "subscript (JArr xs) k = Inl TypeError"

definition subscript2 :: "json \<Rightarrow> string \<Rightarrow> string \<Rightarrow> error + json" where
  "subscript2 v a b = (case subscript v a of Inl e \<Rightarrow> Inl e | Inr w \<Rightarrow> subscript w b)"

text \<open>\<open>v[0]\<close>\<close>

fun index0 :: "json \<Rightarrow> error + json" where
  "index0 (JArr []) = Inl IndexError"
| "index0 (JArr (x # xs)) = Inr x"
| "index0 (JStr []) = Inl IndexError"
| "index0 (JStr (c # cs)) = Inr (JStr [c])"
| "index0 (JObj kvs) = Inl KeyError"
| "index0 JNull = Inl TypeError"
| "index0 (JBool b) = Inl TypeError"

text \<open>\<open>for x in v\<close>: the elements a loop visits, or the TypeError of a value that is not iterable.\<close>

fun iter :: "json \<Rightarrow> error + json list" where
  "iter (JArr xs) = Inr xs"
| "iter (JObj kvs) = Inr (map (\<lambda>kv. JStr (fst kv)) kvs)"
| "iter (JStr s) = Inr (map (\<lambda>c. JStr [c]) s)"
| "iter JNull = Inl TypeError"
| "iter (JBool b) = Inl TypeError"

text \<open>Truth value of a Python object, as \<open>if not x\<close> tests it.\<close>

fun truthy :: "json \<Rightarrow> bool" where
  "truthy JNull = False"
| "truthy (JBool b) = b"
| "truthy (JStr s) = (s \<noteq> [])"
| "truthy (JArr xs) = (xs \<noteq> [])"
| "truthy (JObj kvs) = (kvs \<noteq> [])"

section \<open>The resource store\<close>

text \<open>
  \<open>cvbx_rpc_tools\<close> is imported by the module and is not part of the repository. Every call
  of the class goes through \<open>invoke(target, cid, params)\<close> of one of its four method objects.
  An \<open>event\<close> records one such call, or one \<open>time.sleep\<close>; each operation returns the list of
  events it caused, in order.
\<close>

datatype rpc_method = MGet | MWalk | MSet | MDelete

datatype event = Invoke rpc_method json json json | Sleep nat

text \<open>
  Modelled from the spec: the Resource Store behind \<open>cvbx_rpc_tools\<close> (section 1 of the
  specification: \<open>walk\<close> lists the children that match a type tag, \<open>get\<close> fetches one
  resource, \<open>set\<close> creates a resource and returns it with a generated id, \<open>delete\<close> removes,
  each may fail with a store error; no schema, no foreign keys). The definitions from
  \<open>store\<close> to \<open>store_get\<close>, and \<open>tick\<close>, are this model:
  \<^item> \<open>objects\<close>: the resources, each under the target it was sent to, in creation order;
    \<open>next_id\<close> numbers them and \<open>fresh_id\<close> is the generated id.
  \<^item> \<open>children\<close>: what a walk over a type tag lists.
  \<^item> \<open>agrees params r\<close>: \<open>r\<close> carries every field of \<open>params\<close> with the same value.
  \<^item> \<open>store_set\<close>: the new resource is the request with a generated \<open>id\<close>. A network is
    created with an empty \<open>subnets\<close> list and a new subnet is entered in the list of its
    network, as the docstring of \<open>addNetwork\<close> shows the store doing.
  \<^item> \<open>store_delete\<close>: removes the resources under the target that agree with the request
    (on \<open>tid\<close> and \<open>id\<close>, or on \<open>tid\<close>, \<open>domain\<close> and \<open>port\<close> for a binding).
  \<^item> \<open>store_get\<close>: the first resource under the target that agrees with the request.
  \<^item> \<open>faulty\<close>: the requests the store rejects; \<open>invoke\<close> raises \<open>RpcMethodError\<close> on them.
  \<^item> \<open>env\<close>, \<open>clock\<close> and \<open>tick\<close>: the resources that other parties register while the
    caller sleeps (the connection of a started switch to the mux appears this way).
\<close>

record store =
  objects :: "(json \<times> json) list"
  next_id :: nat
  clock :: nat
  env :: "nat \<Rightarrow> (json \<times> json) list"
  faulty :: "event \<Rightarrow> bool"

fun field :: "string \<Rightarrow> json \<Rightarrow> json option" where
  "field k (JObj kvs) = map_of kvs k"
| "field k JNull = None"
| "field k (JBool b) = None"
| "field k (JStr s) = None"
| "field k (JArr xs) = None"

fun set_field :: "string \<Rightarrow> json \<Rightarrow> json \<Rightarrow> json" where
  "set_field k v (JObj kvs) = JObj (AList.update k v kvs)"
| "set_field k v JNull = JObj [(k, v)]"
| "set_field k v (JBool b) = JObj [(k, v)]"
| "set_field k v (JStr s) = JObj [(k, v)]"
| "set_field k v (JArr xs) = JObj [(k, v)]"

fun string_of_nat :: "nat \<Rightarrow> string" where
  "string_of_nat n =
     (if n < 10 then [''0123456789'' ! n]
      else string_of_nat (n div 10) @ [''0123456789'' ! (n mod 10)])"

declare string_of_nat.simps [simp del]

definition fresh_id :: "nat \<Rightarrow> json" where
  "fresh_id n = JStr (string_of_nat n)"

definition children :: "store \<Rightarrow> json \<Rightarrow> json option \<Rightarrow> json list" where
  "children s target tid =
     map snd (filter (\<lambda>tr. fst tr = target \<and> field ''tid'' (snd tr) = tid) (objects s))"

fun agrees :: "json \<Rightarrow> json \<Rightarrow> bool" where
  "agrees (JObj kvs) r = list_all (\<lambda>kv. field (fst kv) r = Some (snd kv)) kvs"
| "agrees JNull r = False"
| "agrees (JBool b) r = False"
| "agrees (JStr s) r = False"
| "agrees (JArr xs) r = False"

definition link_subnet :: "json \<Rightarrow> json \<Rightarrow> json \<Rightarrow> json" where
  "link_subnet network_id subnet_id r =
     (if field ''tid'' r = Some (JStr ''networking.network'') \<and> field ''id'' r = Some network_id
      then (case field ''subnets'' r of
              Some (JArr ids) \<Rightarrow> set_field ''subnets'' (JArr (ids @ [subnet_id])) r
            | _ \<Rightarrow> set_field ''subnets'' (JArr [subnet_id]) r)
      else r)"

definition store_set :: "json \<Rightarrow> json \<Rightarrow> store \<Rightarrow> json \<times> store" where
  "store_set target params s =
     (let i = fresh_id (next_id s);
          r = set_field ''id'' i params;
          r' = (if field ''tid'' params = Some (JStr ''networking.network'')
                then set_field ''subnets'' (JArr []) r else r);
          old = (if field ''tid'' params = Some (JStr ''networking.subnet'')
                 then (case field ''network_id'' params of
                         Some n \<Rightarrow> map (\<lambda>tr. if fst tr = target
                                             then (fst tr, link_subnet n i (snd tr)) else tr)
                                       (objects s)
                       | None \<Rightarrow> objects s)
                 else objects s)
      in (r', s\<lparr>objects := old @ [(target, r')], next_id := Suc (next_id s)\<rparr>))"

definition store_delete :: "json \<Rightarrow> json \<Rightarrow> store \<Rightarrow> store" where
  "store_delete target params s =
     s\<lparr>objects := filter (\<lambda>tr. \<not> (fst tr = target \<and> agrees params (snd tr))) (objects s)\<rparr>"

definition store_get :: "json \<Rightarrow> json \<Rightarrow> store \<Rightarrow> json option" where
  "store_get target params s =
     (case filter (\<lambda>tr. fst tr = target \<and> agrees params (snd tr)) (objects s) of
        [] \<Rightarrow> None
      | tr # _ \<Rightarrow> Some (snd tr))"

section \<open>Operations: a result or an exception, the store afterwards, the requests issued\<close>

type_synonym 'a prog = "store \<Rightarrow> (error + 'a) \<times> store \<times> event list"

definition ret :: "'a \<Rightarrow> 'a prog" where
  "ret x s = (Inr x, s, [])"

definition lift :: "error + 'a \<Rightarrow> 'a prog" where
  "lift r s = (r, s, [])"

definition bind :: "'a prog \<Rightarrow> ('a \<Rightarrow> 'b prog) \<Rightarrow> 'b prog" where
  "bind m f s =
     (case m s of
        (Inl e, s1, t1) \<Rightarrow> (Inl e, s1, t1)
      | (Inr x, s1, t1) \<Rightarrow> (case f x s1 of (r, s2, t2) \<Rightarrow> (r, s2, t1 @ t2)))"

text \<open>
  \<open>method.invoke(target, cid, params)\<close> inside the \<open>try\<close> block that every method of the class
  wraps around it: \<open>RpcMethodError\<close> and anything else become \<open>CvbnApiFailure\<close>.
\<close>

definition invoke :: "rpc_method \<Rightarrow> json \<Rightarrow> json \<Rightarrow> json \<Rightarrow> json prog" where
  "invoke m target c params s =
     (let ev = Invoke m target c params in
      if faulty s ev then (Inl CvbnApiFailure, s, [ev])
      else (case m of
              MWalk \<Rightarrow> (Inr (JObj [(''children'', JArr (children s target (field ''tid'' params)))]), s, [ev])
            | MSet \<Rightarrow> (case store_set target params s of (r, s') \<Rightarrow> (Inr r, s', [ev]))
            | MDelete \<Rightarrow> (Inr JNull, store_delete target params s, [ev])
            | MGet \<Rightarrow> (case store_get target params s of
                         None \<Rightarrow> (Inl CvbnApiFailure, s, [ev])
                       | Some r \<Rightarrow> (Inr r, s, [ev]))))"

text \<open>\<open>time.sleep(n)\<close>: the clock advances and what the environment registers meanwhile appears.\<close>

definition tick :: "store \<Rightarrow> store" where
  "tick s = s\<lparr>clock := Suc (clock s), objects := objects s @ env s (Suc (clock s))\<rparr>"

definition sleep :: "nat \<Rightarrow> unit prog" where
  "sleep n s = (Inr (), (tick ^^ n) s, [Sleep n])"

section \<open>The class vswitch\<close>

record vswitch =
  agent :: json
  cid :: json

definition init :: "string \<Rightarrow> vswitch" where
  "init host = \<lparr>agent = JStr (host @ ''/cvbn-switch-agent''), cid = JStr ''magic''\<rparr>"

text \<open>The walk every getter starts with: \<open>invoke\<close> with the type tag, then \<open>result['children']\<close>.\<close>

definition walk_children :: "vswitch \<Rightarrow> json \<Rightarrow> string \<Rightarrow> json prog" where
  "walk_children self target tid =
     bind (invoke MWalk target (cid self) (JObj [(''tid'', JStr tid)]))
       (\<lambda>result. lift (subscript result ''children''))"

subsection \<open>Switch lifecycle\<close>

fun isSwitch_loop :: "json list \<Rightarrow> json \<Rightarrow> error + bool" where
  "isSwitch_loop [] uuid = Inr False"
| "isSwitch_loop (instances # rest) uuid =
     (case subscript instances ''id'' of
        Inl e \<Rightarrow> Inl e
      | Inr i \<Rightarrow> if i = uuid then Inr True else isSwitch_loop rest uuid)"

definition isSwitch :: "vswitch \<Rightarrow> json \<Rightarrow> bool prog" where
  "isSwitch self uuid =
     bind (walk_children self (agent self) ''compute.vswitch'')
       (\<lambda>ch. bind (lift (iter ch)) (\<lambda>xs. lift (isSwitch_loop xs uuid)))"

fun getRunId_loop :: "json list \<Rightarrow> json \<Rightarrow> error + json" where
  "getRunId_loop [] uuid = Inr JNull"
| "getRunId_loop (instances # rest) uuid =
     (case subscript2 instances ''configuration'' ''id'' of
        Inl e \<Rightarrow> Inl e
      | Inr i \<Rightarrow> if i = uuid then subscript instances ''id'' else getRunId_loop rest uuid)"

definition getRunId :: "vswitch \<Rightarrow> json \<Rightarrow> json prog" where
  "getRunId self uuid =
     bind (isSwitch self uuid)
       (\<lambda>defined. if \<not> defined then ret JNull
          else bind (walk_children self (agent self) ''compute.server'')
                 (\<lambda>ch. bind (lift (iter ch)) (\<lambda>xs. lift (getRunId_loop xs uuid))))"

definition isRunning :: "vswitch \<Rightarrow> json \<Rightarrow> bool prog" where
  "isRunning self uuid =
     bind (getRunId self uuid) (\<lambda>runId. if runId = JNull then ret False else ret True)"

definition getNetworkingId :: "vswitch \<Rightarrow> json \<Rightarrow> json prog" where
  "getNetworkingId self uuid =
     bind (getRunId self uuid)
       (\<lambda>runId. if runId = JNull then ret JNull
          else bind (walk_children self uuid ''networking.vswitch'')
                 (\<lambda>ch. lift (index0 ch)))"

fun isConnectedToMux_loop :: "json list \<Rightarrow> json \<Rightarrow> error + bool" where
  "isConnectedToMux_loop [] uuid = Inr False"
| "isConnectedToMux_loop (instances # rest) uuid =
     (case subscript instances ''name'' of
        Inl e \<Rightarrow> Inl e
      | Inr n \<Rightarrow> if n = uuid then Inr True else isConnectedToMux_loop rest uuid)"

definition isConnectedToMux :: "vswitch \<Rightarrow> json \<Rightarrow> bool prog" where
  "isConnectedToMux self uuid =
     bind (walk_children self (JStr ''0'') ''connection'')
       (\<lambda>ch. bind (lift (iter ch)) (\<lambda>xs. lift (isConnectedToMux_loop xs uuid)))"

text \<open>
  The \<open>while True\<close> loop of \<open>startSwitch\<close>, entered with \<open>counter\<close>; its value is the final
  \<open>connected\<close>.
\<close>

function wait_loop :: "vswitch \<Rightarrow> json \<Rightarrow> int \<Rightarrow> int \<Rightarrow> bool prog" where
  "wait_loop self uuid maxWait counter s =
     (case isConnectedToMux self uuid s of
        (Inl e, s1, t1) \<Rightarrow> (Inl e, s1, t1)
      | (Inr c, s1, t1) \<Rightarrow>
          if c then (Inr True, s1, t1)
          else (case sleep 1 s1 of
                  (u, s2, t2) \<Rightarrow>
                    if counter + 1 > maxWait then (Inr False, s2, t1 @ t2)
                    else (case wait_loop self uuid maxWait (counter + 1) s2 of
                            (r, s3, t3) \<Rightarrow> (r, s3, t1 @ t2 @ t3))))"
  by pat_completeness auto
termination
  by (relation "measure (\<lambda>(self, uuid, maxWait, counter, s). nat (maxWait + 1 - counter))") auto

declare wait_loop.simps [simp del]

definition startSwitch :: "vswitch \<Rightarrow> json \<Rightarrow> int \<Rightarrow> bool prog" where
  "startSwitch self uuid maxWait =
     bind (isSwitch self uuid)
       (\<lambda>defined. if \<not> defined then ret False
          else bind (isRunning self uuid)
            (\<lambda>running. if running then ret False
               else bind (invoke MSet (agent self) (cid self)
                            (JObj [(''tid'', JStr ''compute.server''),
                                   (''configuration'',
                                      JObj [(''tid'', JStr ''compute.vswitch''), (''id'', uuid)])]))
                 (\<lambda>result. bind (wait_loop self uuid maxWait 0)
                    (\<lambda>connected. if \<not> connected then ret False
                       else bind (invoke MSet uuid (cid self)
                                    (JObj [(''tid'', JStr ''networking.vswitch'')]))
                              (\<lambda>result. ret True)))))"

subsection \<open>Lookups by id\<close>

text \<open>
  \<open>getNetworkId\<close>, \<open>getSubnetId\<close>, \<open>getDomainId\<close>, \<open>getPortGreId\<close> and \<open>getPortVlanId\<close> share one
  body up to the type tag: \<open>None\<close> unless the switch runs, then the first child whose \<open>id\<close> is
  the one asked for, or \<open>None\<close>.
\<close>

fun getId_loop :: "json list \<Rightarrow> json \<Rightarrow> error + json" where
  "getId_loop [] ident = Inr JNull"
| "getId_loop (instances # rest) ident =
     (case subscript instances ''id'' of
        Inl e \<Rightarrow> Inl e
      | Inr i \<Rightarrow> if i = ident then Inr instances else getId_loop rest ident)"

definition getById :: "string \<Rightarrow> vswitch \<Rightarrow> json \<Rightarrow> json \<Rightarrow> json prog" where
  "getById tid self uuid ident =
     bind (getRunId self uuid)
       (\<lambda>runId. if runId = JNull then ret JNull
          else bind (walk_children self uuid tid)
                 (\<lambda>ch. bind (lift (iter ch)) (\<lambda>xs. lift (getId_loop xs ident))))"

definition getNetworkId :: "vswitch \<Rightarrow> json \<Rightarrow> json \<Rightarrow> json prog" where
  "getNetworkId = getById ''networking.network''"

definition getSubnetId :: "vswitch \<Rightarrow> json \<Rightarrow> json \<Rightarrow> json prog" where
  "getSubnetId = getById ''networking.subnet''"

definition getDomainId :: "vswitch \<Rightarrow> json \<Rightarrow> json \<Rightarrow> json prog" where
  "getDomainId = getById ''networking.vswitch.domain''"

definition getPortGreId :: "vswitch \<Rightarrow> json \<Rightarrow> json \<Rightarrow> json prog" where
  "getPortGreId = getById ''networking.port.gre''"

definition getPortVlanId :: "vswitch \<Rightarrow> json \<Rightarrow> json \<Rightarrow> json prog" where
  "getPortVlanId = getById ''networking.port.raw''"

definition getDomains :: "vswitch \<Rightarrow> json \<Rightarrow> json prog" where
  "getDomains self uuid =
     bind (getRunId self uuid)
       (\<lambda>runId. if runId = JNull then ret JNull
          else walk_children self uuid ''networking.vswitch.domain'')"

subsection \<open>Networks and subnets\<close>

definition addSubnet :: "vswitch \<Rightarrow> json \<Rightarrow> json \<Rightarrow> json \<Rightarrow> json prog" where
  "addSubnet self uuid networkId ipv4Subnet =
     bind (getRunId self uuid)
       (\<lambda>runId. if runId = JNull then ret JNull
          else bind (getNetworkId self uuid networkId)
            (\<lambda>network. if network = JNull then ret JNull
               else bind (invoke MSet uuid (cid self)
                            (JObj [(''tid'', JStr ''networking.subnet''),
                                   (''network_id'', networkId),
                                   (''cidr'', ipv4Subnet)]))
                      (\<lambda>result. lift (subscript result ''id''))))"

definition deleteSubnet :: "vswitch \<Rightarrow> json \<Rightarrow> json \<Rightarrow> bool prog" where
  "deleteSubnet self uuid subnetId =
     bind (getRunId self uuid)
       (\<lambda>runId. if runId = JNull then ret False
          else bind (getSubnetId self uuid subnetId)
            (\<lambda>subnet. if subnet = JNull then ret False
               else bind (invoke MDelete uuid (cid self)
                            (JObj [(''tid'', JStr ''networking.subnet''), (''id'', subnetId)]))
                      (\<lambda>result. ret True)))"

text \<open>
  The loop of \<open>deleteNetwork\<close> over \<open>networkDetails['subnets']\<close>: \<open>False\<close> when it left the
  function with \<open>return False\<close>, \<open>True\<close> when it ran to its end.
\<close>

fun deleteNetwork_loop :: "vswitch \<Rightarrow> json \<Rightarrow> json list \<Rightarrow> bool prog" where
  "deleteNetwork_loop self uuid [] = ret True"
| "deleteNetwork_loop self uuid (subnetId # rest) =
     bind (deleteSubnet self uuid subnetId)
       (\<lambda>ok. if \<not> ok then ret False else deleteNetwork_loop self uuid rest)"

definition deleteNetwork :: "vswitch \<Rightarrow> json \<Rightarrow> json \<Rightarrow> bool prog" where
  "deleteNetwork self uuid networkId =
     bind (getRunId self uuid)
       (\<lambda>runId. if runId = JNull then ret False
          else bind (getNetworkId self uuid networkId)
            (\<lambda>networkDetails. if networkDetails = JNull then ret False
               else bind (lift (subscript networkDetails ''subnets''))
                 (\<lambda>subnets. bind (lift (iter subnets))
                    (\<lambda>ids. bind (deleteNetwork_loop self uuid ids)
                       (\<lambda>finished. if \<not> finished then ret False
                          else bind (invoke MDelete uuid (cid self)
                                       (JObj [(''tid'', JStr ''networking.network''),
                                              (''id'', networkId)]))
                                 (\<lambda>result. ret True))))))"

definition addNetwork :: "vswitch \<Rightarrow> json \<Rightarrow> json \<Rightarrow> json \<Rightarrow> json \<Rightarrow> json prog" where
  "addNetwork self uuid networkName hostInterface ipv4Subnet =
     bind (getRunId self uuid)
       (\<lambda>runId. if runId = JNull then ret JNull
          else bind (invoke MSet uuid (cid self)
                       (JObj [(''tid'', JStr ''networking.network''),
                              (''network_type'', JStr ''associate''),
                              (''name'', networkName),
                              (''host_interface'', hostInterface)]))
            (\<lambda>result. bind (lift (subscript result ''id''))
               (\<lambda>networkId.
                  if \<not> (ipv4Subnet = JStr ''None'') then
                    bind (addSubnet self uuid networkId ipv4Subnet)
                      (\<lambda>subnet. if \<not> truthy subnet
                         then bind (deleteNetwork self uuid networkId) (\<lambda>ignored. ret JNull)
                         else ret networkId)
                  else ret networkId)))"

subsection \<open>Domains, ports and bindings\<close>

definition addDomain :: "vswitch \<Rightarrow> json \<Rightarrow> json \<Rightarrow> json prog" where
  "addDomain self uuid domainName =
     bind (getRunId self uuid)
       (\<lambda>runId. if runId = JNull then ret JNull
          else bind (getNetworkingId self uuid)
            (\<lambda>networking. bind (invoke MSet uuid (cid self)
                                  (JObj [(''tid'', JStr ''networking.vswitch.domain''),
                                         (''vswitch'', networking),
                                         (''name'', domainName)]))
               (\<lambda>result. lift (subscript result ''id''))))"

definition addPortGre :: "vswitch \<Rightarrow> json \<Rightarrow> json \<Rightarrow> json \<Rightarrow> json \<Rightarrow> json \<Rightarrow> json \<Rightarrow> json \<Rightarrow> json prog" where
  "addPortGre self uuid subnetId portName local_ip remote_ip checksum seqnum =
     bind (getRunId self uuid)
       (\<lambda>runId. if runId = JNull then ret JNull
          else bind (getSubnetId self uuid subnetId)
            (\<lambda>subnet. if subnet = JNull then ret JNull
               else bind (invoke MSet uuid (cid self)
                            (JObj [(''tid'', JStr ''networking.port.gre''),
                                   (''name'', portName),
                                   (''local_subnet'', subnetId),
                                   (''local_endpoint'',
                                      if local_ip = JNull then JObj []
                                      else JObj [(''ip_address'', local_ip)]),
                                   (''remote_endpoint'',
                                      if remote_ip = JNull then JObj []
                                      else JObj [(''ip_address'', remote_ip)]),
                                   (''checksum_present'', checksum),
                                   (''seq_num_present'', seqnum)]))
                      (\<lambda>result. lift (subscript result ''id''))))"

text \<open>
  The class body defines \<open>isPortGreDomain\<close> twice. The second definition (parameters
  \<open>uuid, portId, domainId\<close>, no lookup of the domain or of the port) replaces the first
  (parameters \<open>uuid, domainId, portId\<close>) when the class is created, so it is the method
  every caller reaches; the first survives here as \<open>isPortGreDomain_first\<close> only.
\<close>

fun isPortDomain_loop :: "string \<Rightarrow> json list \<Rightarrow> json \<Rightarrow> json \<Rightarrow> error + bool" where
  "isPortDomain_loop kind [] portId domainId = Inr False"
| "isPortDomain_loop kind (instances # rest) portId domainId =
     (case subscript2 instances ''domain'' ''id'' of
        Inl e \<Rightarrow> Inl e
      | Inr d \<Rightarrow>
          if d = domainId then
            (case subscript2 instances ''port'' ''tid'' of
               Inl e \<Rightarrow> Inl e
             | Inr t \<Rightarrow>
                 if t = JStr kind then
                   (case subscript2 instances ''port'' ''id'' of
                      Inl e \<Rightarrow> Inl e
                    | Inr p \<Rightarrow> if p = portId then Inr True
                               else isPortDomain_loop kind rest portId domainId)
                 else isPortDomain_loop kind rest portId domainId)
          else isPortDomain_loop kind rest portId domainId)"

definition isPortGreDomain :: "vswitch \<Rightarrow> json \<Rightarrow> json \<Rightarrow> json \<Rightarrow> bool prog" where
  "isPortGreDomain self uuid portId domainId =
     bind (getRunId self uuid)
       (\<lambda>runId. if runId = JNull then ret False
          else bind (walk_children self uuid ''networking.vswitch.domain.ports'')
                 (\<lambda>ch. bind (lift (iter ch))
                    (\<lambda>xs. lift (isPortDomain_loop ''networking.port.gre'' xs portId domainId))))"

definition isPortGreDomain_first :: "vswitch \<Rightarrow> json \<Rightarrow> json \<Rightarrow> json \<Rightarrow> bool prog" where
  "isPortGreDomain_first self uuid domainId portId =
     bind (getRunId self uuid)
       (\<lambda>runId. if runId = JNull then ret False
          else bind (getDomainId self uuid domainId)
            (\<lambda>domain. if domain = JNull then ret False
               else bind (getPortGreId self uuid portId)
                 (\<lambda>port. if port = JNull then ret False
                    else bind (walk_children self uuid ''networking.vswitch.domain.ports'')
                           (\<lambda>ch. bind (lift (iter ch))
                              (\<lambda>xs. lift (isPortDomain_loop ''networking.port.gre'' xs portId domainId))))))"

definition isPortVlanDomain :: "vswitch \<Rightarrow> json \<Rightarrow> json \<Rightarrow> json \<Rightarrow> bool prog" where
  "isPortVlanDomain self uuid domainId portId =
     bind (getRunId self uuid)
       (\<lambda>runId. if runId = JNull then ret False
          else bind (getDomainId self uuid domainId)
            (\<lambda>domain. if domain = JNull then ret False
               else bind (getPortVlanId self uuid portId)
                 (\<lambda>port. if port = JNull then ret False
                    else bind (walk_children self uuid ''networking.vswitch.domain.ports'')
                           (\<lambda>ch. bind (lift (iter ch))
                              (\<lambda>xs. lift (isPortDomain_loop ''networking.port.raw'' xs portId domainId))))))"

text \<open>
  \<open>addPortGreDomain\<close> and \<open>deletePortGreDomain\<close> call \<open>self.isPortGreDomain(uuid, domainId, portId)\<close>:
  the domain id arrives in the parameter \<open>portId\<close> and the port id in \<open>domainId\<close>.
\<close>

definition addPortGreDomain :: "vswitch \<Rightarrow> json \<Rightarrow> json \<Rightarrow> json \<Rightarrow> bool prog" where
  "addPortGreDomain self uuid domainId portId =
     bind (getRunId self uuid)
       (\<lambda>runId. if runId = JNull then ret False
          else bind (getDomainId self uuid domainId)
            (\<lambda>domain. if domain = JNull then ret False
               else bind (getPortGreId self uuid portId)
                 (\<lambda>port. if port = JNull then ret False
                    else bind (isPortGreDomain self uuid domainId portId)
                      (\<lambda>member. if member then ret False
                         else bind (invoke MSet uuid (cid self)
                                      (JObj [(''tid'', JStr ''networking.vswitch.domain.ports''),
                                             (''domain'', JObj [(''tid'', JStr ''networking.vswitch.domain''),
                                                                (''id'', domainId)]),
                                             (''port'', JObj [(''tid'', JStr ''networking.port.gre''),
                                                              (''id'', portId)])]))
                                (\<lambda>result. ret True)))))"

definition deletePortGreDomain :: "vswitch \<Rightarrow> json \<Rightarrow> json \<Rightarrow> json \<Rightarrow> bool prog" where
  "deletePortGreDomain self uuid domainId portId =
     bind (getRunId self uuid)
       (\<lambda>runId. if runId = JNull then ret False
          else bind (getDomainId self uuid domainId)
            (\<lambda>domain. if domain = JNull then ret False
               else bind (isPortGreDomain self uuid domainId portId)
                 (\<lambda>member. if \<not> member then ret False
                    else bind (invoke MDelete uuid (cid self)
                                 (JObj [(''tid'', JStr ''networking.vswitch.domain.ports''),
                                        (''domain'', JObj [(''tid'', JStr ''networking.vswitch.domain''),
                                                           (''id'', domainId)]),
                                        (''port'', JObj [(''tid'', JStr ''networking.port.gre''),
                                                         (''id'', portId)])]))
                           (\<lambda>result. ret True))))"

definition deletePortVlanDomain :: "vswitch \<Rightarrow> json \<Rightarrow> json \<Rightarrow> json \<Rightarrow> bool prog" where
  "deletePortVlanDomain self uuid domainId portId =
     bind (getRunId self uuid)
       (\<lambda>runId. if runId = JNull then ret False
          else bind (getDomainId self uuid domainId)
            (\<lambda>domain. if domain = JNull then ret False
               else bind (isPortVlanDomain self uuid domainId portId)
                 (\<lambda>member. if \<not> member then ret False
                    else bind (invoke MDelete uuid (cid self)
                                 (JObj [(''tid'', JStr ''networking.vswitch.domain.ports''),
                                        (''domain'', JObj [(''tid'', JStr ''networking.vswitch.domain''),
                                                           (''id'', domainId)]),
                                        (''port'', JObj [(''tid'', JStr ''networking.port.raw''),
                                                         (''id'', portId)])]))
                           (\<lambda>result. ret True))))"

fun isPortGreAnyDomain_loop :: "vswitch \<Rightarrow> json \<Rightarrow> json \<Rightarrow> json list \<Rightarrow> bool prog" where
  "isPortGreAnyDomain_loop self uuid portId [] = ret False"
| "isPortGreAnyDomain_loop self uuid portId (domain # rest) =
     bind (lift (subscript domain ''id''))
       (\<lambda>d. bind (isPortGreDomain self uuid portId d)
          (\<lambda>member. if member then ret True
             else isPortGreAnyDomain_loop self uuid portId rest))"

definition isPortGreAnyDomain :: "vswitch \<Rightarrow> json \<Rightarrow> json \<Rightarrow> bool prog" where
  "isPortGreAnyDomain self uuid portId =
     bind (getRunId self uuid)
       (\<lambda>runId. if runId = JNull then ret False
          else bind (getDomains self uuid)
            (\<lambda>domains. bind (lift (iter domains))
               (\<lambda>ds. isPortGreAnyDomain_loop self uuid portId ds)))"

definition deletePortGre :: "vswitch \<Rightarrow> json \<Rightarrow> json \<Rightarrow> bool prog" where
  "deletePortGre self uuid portId =
     bind (getRunId self uuid)
       (\<lambda>runId. if runId = JNull then ret False
          else bind (getPortGreId self uuid portId)
            (\<lambda>port. if port = JNull then ret False
               else bind (isPortGreAnyDomain self uuid portId)
                 (\<lambda>bound. if bound then ret False
                    else bind (invoke MDelete uuid (cid self)
                                 (JObj [(''tid'', JStr ''networking.port.gre''), (''id'', portId)]))
                           (\<lambda>result. ret True))))"

definition deletePortVlan :: "vswitch \<Rightarrow> json \<Rightarrow> json \<Rightarrow> bool prog" where
  "deletePortVlan self uuid portId =
     bind (getRunId self uuid)
       (\<lambda>runId. if runId = JNull then ret False
          else bind (getPortVlanId self uuid portId)
            (\<lambda>port. if port = JNull then ret False
               else bind (invoke MDelete uuid (cid self)
                            (JObj [(''tid'', JStr ''networking.port.raw''), (''id'', portId)]))
                      (\<lambda>result. ret True)))"

text \<open>The body of the loop of \<open>deleteDomainPorts\<close>; what the four calls return is dropped.\<close>

definition deleteDomainPorts_body :: "vswitch \<Rightarrow> json \<Rightarrow> json \<Rightarrow> json \<Rightarrow> unit prog" where
  "deleteDomainPorts_body self uuid domainId instances =
     bind (lift (subscript2 instances ''domain'' ''id''))
       (\<lambda>d. if d = domainId then
          bind (lift (subscript2 instances ''port'' ''tid''))
            (\<lambda>t. bind (if t = JStr ''networking.port.gre'' then
                         bind (lift (subscript2 instances ''port'' ''id''))
                           (\<lambda>p. bind (deletePortGreDomain self uuid domainId p)
                              (\<lambda>ignored. bind (lift (subscript2 instances ''port'' ''id''))
                                 (\<lambda>p'. bind (deletePortGre self uuid p') (\<lambda>ignored. ret ()))))
                       else ret ())
               (\<lambda>u. bind (lift (subscript2 instances ''port'' ''tid''))
                  (\<lambda>t'. if t' = JStr ''networking.port.raw'' then
                          bind (lift (subscript2 instances ''port'' ''id''))
                            (\<lambda>p. bind (deletePortVlanDomain self uuid domainId p)
                               (\<lambda>ignored. bind (lift (subscript2 instances ''port'' ''id''))
                                  (\<lambda>p'. bind (deletePortVlan self uuid p') (\<lambda>ignored. ret ()))))
                        else ret ())))
        else ret ())"

fun deleteDomainPorts_loop :: "vswitch \<Rightarrow> json \<Rightarrow> json \<Rightarrow> json list \<Rightarrow> unit prog" where
  "deleteDomainPorts_loop self uuid domainId [] = ret ()"
| "deleteDomainPorts_loop self uuid domainId (instances # rest) =
     bind (deleteDomainPorts_body self uuid domainId instances)
       (\<lambda>u. deleteDomainPorts_loop self uuid domainId rest)"

definition deleteDomainPorts :: "vswitch \<Rightarrow> json \<Rightarrow> json \<Rightarrow> bool prog" where
  "deleteDomainPorts self uuid domainId =
     bind (getRunId self uuid)
       (\<lambda>runId. if runId = JNull then ret False
          else bind (getDomainId self uuid domainId)
            (\<lambda>domain. if domain = JNull then ret False
               else bind (walk_children self uuid ''networking.vswitch.domain.ports'')
                 (\<lambda>ch. bind (lift (iter ch))
                    (\<lambda>xs. bind (deleteDomainPorts_loop self uuid domainId xs)
                       (\<lambda>u. ret True)))))"

definition deleteDomain :: "vswitch \<Rightarrow> json \<Rightarrow> json \<Rightarrow> bool prog" where
  "deleteDomain self uuid domainId =
     bind (getRunId self uuid)
       (\<lambda>runId. if runId = JNull then ret False
          else bind (getDomainId self uuid domainId)
            (\<lambda>domain. if domain = JNull then ret False
               else bind (deleteDomainPorts self uuid domainId)
                 (\<lambda>ok. if \<not> ok then ret False
                    else bind (invoke MDelete uuid (cid self)
                                 (JObj [(''tid'', JStr ''networking.vswitch.domain''),
                                        (''id'', domainId)]))
                           (\<lambda>result. ret True))))"

section \<open>Reading an execution\<close>

abbreviation outcome :: "(error + 'a) \<times> store \<times> event list \<Rightarrow> error + 'a" where
  "outcome r \<equiv> fst r"

abbreviation final :: "(error + 'a) \<times> store \<times> event list \<Rightarrow> store" where
  "final r \<equiv> fst (snd r)"

abbreviation requests :: "(error + 'a) \<times> store \<times> event list \<Rightarrow> event list" where
  "requests r \<equiv> snd (snd r)"

fun is_walk :: "event \<Rightarrow> bool" where
  "is_walk (Invoke m target c params) = (m = MWalk)"
| "is_walk (Sleep n) = False"

fun is_set :: "event \<Rightarrow> bool" where
  "is_set (Invoke m target c params) = (m = MSet)"
| "is_set (Sleep n) = False"

fun request_params :: "event \<Rightarrow> json" where
  "request_params (Invoke m target c params) = params"
| "request_params (Sleep n) = JNull"

text \<open>The requests that are not walks, in the order they were issued.\<close>

definition mutations :: "event list \<Rightarrow> event list" where
  "mutations t = filter (\<lambda>ev. \<not> is_walk ev) t"

text \<open>An operation that leaves the store as it found it and issues nothing but walks.\<close>

definition reader :: "'a prog \<Rightarrow> bool" where
  "reader m \<longleftrightarrow> (\<forall>s. final (m s) = s \<and> list_all is_walk (requests (m s)))"

section \<open>Vocabulary of the properties\<close>

fun ok :: "error + 'a \<Rightarrow> bool" where
  "ok (Inr x) = True"
| "ok (Inl e) = False"

text \<open>A resource with an \<open>id\<close>; a binding with the three fields the loops read.\<close>

definition has_id :: "json \<Rightarrow> bool" where
  "has_id r = ok (subscript r ''id'')"

definition binding_wf :: "json \<Rightarrow> bool" where
  "binding_wf b \<longleftrightarrow>
     ok (subscript2 b ''domain'' ''id'') \<and> ok (subscript2 b ''port'' ''tid'')
     \<and> ok (subscript2 b ''port'' ''id'')"

text \<open>The binding \<open>b\<close> ties the port \<open>p\<close> of type tag \<open>kind\<close> to the domain \<open>d\<close>.\<close>

definition port_of :: "string \<Rightarrow> json \<Rightarrow> json \<Rightarrow> bool" where
  "port_of kind p b \<longleftrightarrow>
     subscript2 b ''port'' ''tid'' = Inr (JStr kind) \<and> subscript2 b ''port'' ''id'' = Inr p"

definition is_binding_of :: "string \<Rightarrow> json \<Rightarrow> json \<Rightarrow> json \<Rightarrow> bool" where
  "is_binding_of kind d p b \<longleftrightarrow> subscript2 b ''domain'' ''id'' = Inr d \<and> port_of kind p b"

text \<open>The connection checks of \<open>isConnectedToMux\<close> among the requests of an execution.\<close>

definition is_check :: "vswitch \<Rightarrow> event \<Rightarrow> bool" where
  "is_check self ev \<longleftrightarrow>
     ev = Invoke MWalk (JStr ''0'') (cid self) (JObj [(''tid'', JStr ''connection'')])"

definition checks :: "vswitch \<Rightarrow> event list \<Rightarrow> nat" where
  "checks self t = length (filter (is_check self) t)"

text \<open>
  What an execution on the switch \<open>uuid\<close> came to. \<open>domain_view\<close>: its outcome, the domains,
  bindings, GRE ports and VLAN ports in the store afterwards, and the requests other than
  walks. \<open>network_view\<close>: its outcome, the names of the networks in the store afterwards, and
  the requests other than walks.
\<close>

definition domain_view ::
  "json \<Rightarrow> (error + 'a) \<times> store \<times> event list
     \<Rightarrow> (error + 'a) \<times> json list \<times> json list \<times> json list \<times> json list \<times> event list" where
  "domain_view uuid r =
     (outcome r,
      children (final r) uuid (Some (JStr ''networking.vswitch.domain'')),
      children (final r) uuid (Some (JStr ''networking.vswitch.domain.ports'')),
      children (final r) uuid (Some (JStr ''networking.port.gre'')),
      children (final r) uuid (Some (JStr ''networking.port.raw'')),
      mutations (requests r))"

definition network_view ::
  "json \<Rightarrow> (error + 'a) \<times> store \<times> event list
     \<Rightarrow> (error + 'a) \<times> json option list \<times> event list" where
  "network_view uuid r =
     (outcome r,
      map (field ''name'') (children (final r) uuid (Some (JStr ''networking.network''))),
      mutations (requests r))"

section \<open>Stores to run the class on\<close>

text \<open>
  \<open>demo\<close> is \<open>vswitch("localhost", "none")\<close>. In \<open>running_store\<close> the switch \<open>sw\<close> is defined and
  runs; it has a network with a subnet, the domain \<open>d1\<close>, the GRE port \<open>p1\<close> and the VLAN port
  \<open>v1\<close>, both bound to \<open>d1\<close>. Nothing is rejected and nothing arrives from outside.
\<close>

definition demo :: vswitch where
  "demo = init ''none''"

definition quiet :: "nat \<Rightarrow> (json \<times> json) list" where
  "quiet t = []"

definition accepting :: "event \<Rightarrow> bool" where
  "accepting ev = False"

definition switch_definition :: "json \<times> json" where
  "switch_definition =
     (JStr ''none/cvbn-switch-agent'',
      JObj [(''tid'', JStr ''compute.vswitch''), (''name'', JStr ''demo''), (''id'', JStr ''sw'')])"

definition switch_objects :: "(json \<times> json) list" where
  "switch_objects =
     [switch_definition,
      (JStr ''none/cvbn-switch-agent'',
       JObj [(''tid'', JStr ''compute.server''),
             (''configuration'', JObj [(''tid'', JStr ''compute.vswitch''), (''id'', JStr ''sw'')]),
             (''id'', JStr ''run'')])]"

definition gre_binding :: "string \<Rightarrow> string \<Rightarrow> string \<Rightarrow> json" where
  "gre_binding d p i =
     JObj [(''tid'', JStr ''networking.vswitch.domain.ports''),
           (''domain'', JObj [(''tid'', JStr ''networking.vswitch.domain''), (''id'', JStr d)]),
           (''port'', JObj [(''tid'', JStr ''networking.port.gre''), (''id'', JStr p)]),
           (''id'', JStr i)]"

definition vlan_binding :: "string \<Rightarrow> string \<Rightarrow> string \<Rightarrow> json" where
  "vlan_binding d p i =
     JObj [(''tid'', JStr ''networking.vswitch.domain.ports''),
           (''domain'', JObj [(''tid'', JStr ''networking.vswitch.domain''), (''id'', JStr d)]),
           (''port'', JObj [(''tid'', JStr ''networking.port.raw''), (''id'', JStr p)]),
           (''id'', JStr i)]"

definition network_objects :: "(json \<times> json) list" where
  "network_objects =
     [(JStr ''sw'',
       JObj [(''tid'', JStr ''networking.network''), (''network_type'', JStr ''associate''),
             (''name'', JStr ''vm''), (''host_interface'', JStr ''lo''), (''id'', JStr ''n1''),
             (''subnets'', JArr [JStr ''s1''])]),
      (JStr ''sw'',
       JObj [(''tid'', JStr ''networking.subnet''), (''network_id'', JStr ''n1''),
             (''cidr'', JStr ''192.168.30.0/24''), (''id'', JStr ''s1'')])]"

definition domain_object :: "string \<Rightarrow> (json \<times> json)" where
  "domain_object d =
     (JStr ''sw'',
      JObj [(''tid'', JStr ''networking.vswitch.domain''), (''name'', JStr ''user1''), (''id'', JStr d)])"

definition gre_object :: "string \<Rightarrow> (json \<times> json)" where
  "gre_object p =
     (JStr ''sw'',
      JObj [(''tid'', JStr ''networking.port.gre''), (''name'', JStr ''gre10''),
            (''local_subnet'', JStr ''s1''), (''id'', JStr p)])"

definition vlan_object :: "string \<Rightarrow> (json \<times> json)" where
  "vlan_object p =
     (JStr ''sw'',
      JObj [(''tid'', JStr ''networking.port.raw''), (''name'', JStr ''vlan666''),
            (''network_id'', JStr ''n1''), (''id'', JStr p)])"

definition store_of :: "(json \<times> json) list \<Rightarrow> store" where
  "store_of objs = \<lparr>objects = objs, next_id = 7, clock = 0, env = quiet, faulty = accepting\<rparr>"

definition running_store :: store where
  "running_store =
     store_of (switch_objects @ network_objects @
               [domain_object ''d1'', gre_object ''p1'', vlan_object ''v1'',
                (JStr ''sw'', gre_binding ''d1'' ''p1'' ''b1''),
                (JStr ''sw'', vlan_binding ''d1'' ''v1'' ''b2'')])"

text \<open>The GRE port \<open>p1\<close> exists and no binding does.\<close>

definition unbound_store :: store where
  "unbound_store =
     store_of (switch_objects @ network_objects @ [domain_object ''d1'', gre_object ''p1''])"

text \<open>A store that rejects every request to create a subnet.\<close>

fun rejects_subnets :: "event \<Rightarrow> bool" where
  "rejects_subnets (Invoke m target c params) =
     (m = MSet \<and> field ''tid'' params = Some (JStr ''networking.subnet''))"
| "rejects_subnets (Sleep n) = False"

definition strict_store :: store where
  "strict_store = running_store\<lparr>faulty := rejects_subnets\<rparr>"

text \<open>
  The switch \<open>sw\<close> is defined and does not run. In \<open>stopped_store\<close> no connection ever
  appears; in \<open>connecting_store\<close> the mux lists the connection of \<open>sw\<close> from the second tick on.
\<close>

definition stopped_store :: store where
  "stopped_store = store_of [switch_definition]"

definition mux_late :: "nat \<Rightarrow> (json \<times> json) list" where
  "mux_late t =
     (if t = 2 then [(JStr ''0'', JObj [(''tid'', JStr ''connection''), (''name'', JStr ''sw'')])]
      else [])"

definition connecting_store :: store where
  "connecting_store = stopped_store\<lparr>env := mux_late\<rparr>"

section \<open>Sequencing and read-only operations\<close>

lemma bind_proj:
  "bind m f s =
     (case outcome (m s) of
        Inl e \<Rightarrow> (Inl e, final (m s), requests (m s))
      | Inr x \<Rightarrow> (outcome (f x (final (m s))), final (f x (final (m s))),
                  requests (m s) @ requests (f x (final (m s)))))"
  by (simp add: bind_def split: prod.splits sum.splits)

lemma reader_final: "reader m \<Longrightarrow> final (m s) = s"
  by (simp add: reader_def)

lemma reader_requests: "reader m \<Longrightarrow> list_all is_walk (requests (m s))"
  by (simp add: reader_def)

named_theorems reader_intros

lemma reader_ret [reader_intros, simp]: "reader (ret x)"
  by (simp add: reader_def ret_def)

lemma reader_lift [reader_intros, simp]: "reader (lift r)"
  by (simp add: reader_def lift_def)

lemma reader_bind [reader_intros]:
  assumes "reader m" and "\<And>x. reader (f x)"
  shows "reader (bind m f)"
  unfolding reader_def
proof (intro allI conjI)
  fix s
  show "final (bind m f s) = s"
    using assms by (simp add: bind_proj reader_final split: sum.splits)
  show "list_all is_walk (requests (bind m f s))"
    using assms by (simp add: bind_proj reader_final reader_requests split: sum.splits)
qed

lemma reader_if [reader_intros]: "reader a \<Longrightarrow> reader b \<Longrightarrow> reader (if c then a else b)"
  by simp

lemma reader_walk [reader_intros, simp]: "reader (invoke MWalk target c params)"
  by (simp add: reader_def invoke_def Let_def)

lemma reader_walk_children [reader_intros, simp]: "reader (walk_children self target tid)"
  unfolding walk_children_def by (intro reader_intros)

lemma reader_isSwitch [reader_intros, simp]: "reader (isSwitch self uuid)"
  unfolding isSwitch_def by (intro reader_intros)

lemma reader_getRunId [reader_intros, simp]: "reader (getRunId self uuid)"
  unfolding getRunId_def by (intro reader_intros)

lemma reader_isRunning [reader_intros, simp]: "reader (isRunning self uuid)"
  unfolding isRunning_def by (intro reader_intros)

lemma reader_getNetworkingId [reader_intros, simp]: "reader (getNetworkingId self uuid)"
  unfolding getNetworkingId_def by (intro reader_intros)

lemma reader_isConnectedToMux [reader_intros, simp]: "reader (isConnectedToMux self uuid)"
  unfolding isConnectedToMux_def by (intro reader_intros)

lemma reader_getById [reader_intros, simp]: "reader (getById tid self uuid ident)"
  unfolding getById_def by (intro reader_intros)

lemma reader_getDomains [reader_intros, simp]: "reader (getDomains self uuid)"
  unfolding getDomains_def by (intro reader_intros)

lemma reader_isPortGreDomain [reader_intros, simp]: "reader (isPortGreDomain self uuid p d)"
  unfolding isPortGreDomain_def by (intro reader_intros)

lemma reader_isPortVlanDomain [reader_intros, simp]: "reader (isPortVlanDomain self uuid d p)"
  unfolding isPortVlanDomain_def getDomainId_def getPortVlanId_def by (intro reader_intros)

lemma reader_isPortGreAnyDomain_loop [reader_intros, simp]:
  "reader (isPortGreAnyDomain_loop self uuid p ds)"
  by (induction ds) (simp, simp, intro reader_intros)

lemma reader_isPortGreAnyDomain [reader_intros, simp]: "reader (isPortGreAnyDomain self uuid p)"
  unfolding isPortGreAnyDomain_def by (intro reader_intros)

lemmas reads =
  reader_final [OF reader_isSwitch] reader_final [OF reader_getRunId]
  reader_final [OF reader_isRunning] reader_final [OF reader_getNetworkingId]
  reader_final [OF reader_isConnectedToMux] reader_final [OF reader_getById]
  reader_final [OF reader_getDomains] reader_final [OF reader_isPortGreDomain]
  reader_final [OF reader_isPortVlanDomain] reader_final [OF reader_isPortGreAnyDomain]
  reader_final [OF reader_walk_children] reader_final [OF reader_walk]
  reader_requests [OF reader_isSwitch] reader_requests [OF reader_getRunId]
  reader_requests [OF reader_isRunning] reader_requests [OF reader_getNetworkingId]
  reader_requests [OF reader_isConnectedToMux] reader_requests [OF reader_getById]
  reader_requests [OF reader_getDomains] reader_requests [OF reader_isPortGreDomain]
  reader_requests [OF reader_isPortVlanDomain] reader_requests [OF reader_isPortGreAnyDomain]
  reader_requests [OF reader_walk_children] reader_requests [OF reader_walk]

subsection \<open>Evaluation on the example stores\<close>

lemma demo_running: "outcome (isRunning demo (JStr ''sw'') running_store) = Inr True"
  by code_simp

text \<open>
  The call \<open>isPortGreDomain(uuid, domainId, portId)\<close> that \<open>addPortGreDomain\<close> and
  \<open>deletePortGreDomain\<close> make, on the pair that \<open>running_store\<close> binds: the first definition
  would find the binding, the definition in force does not.
\<close>

lemma isPortGreDomain_shadowed:
  "outcome (isPortGreDomain_first demo (JStr ''sw'') (JStr ''d1'') (JStr ''p1'') running_store) = Inr True"
  "outcome (isPortGreDomain demo (JStr ''sw'') (JStr ''d1'') (JStr ''p1'') running_store) = Inr False"
  "outcome (isPortGreDomain demo (JStr ''sw'') (JStr ''p1'') (JStr ''d1'') running_store) = Inr True"
  by code_simp+

text \<open>What "the switch runs" gives.\<close>

lemma running_getRunId:
  assumes "outcome (isRunning self uuid s) = Inr True"
  shows "\<exists>r. outcome (getRunId self uuid s) = Inr r \<and> r \<noteq> JNull"
  using assms
  by (cases "outcome (getRunId self uuid s)")
     (auto simp: isRunning_def bind_proj ret_def reads split: if_splits)

lemma getRunId_isSwitch:
  assumes "outcome (getRunId self uuid s) = Inr r" and "r \<noteq> JNull"
  shows "outcome (isSwitch self uuid s) = Inr True"
  using assms
  by (cases "outcome (isSwitch self uuid s)")
     (auto simp: getRunId_def bind_proj ret_def reads split: if_splits)

text \<open>
  Claim C8. On a switch that already runs, \<open>startSwitch\<close> returns \<open>False\<close>, leaves the store as
  it was and issues walks only: no \<open>set\<close> is sent, so no second run instance is created.
\<close>

theorem startSwitch_already_running:
  assumes "outcome (isRunning self uuid s) = Inr True"
  shows "outcome (startSwitch self uuid maxWait s) = Inr False
       \<and> final (startSwitch self uuid maxWait s) = s
       \<and> list_all is_walk (requests (startSwitch self uuid maxWait s))"
proof -
  obtain r where r: "outcome (getRunId self uuid s) = Inr r" "r \<noteq> JNull"
    using running_getRunId [OF assms] by blast
  have sw: "outcome (isSwitch self uuid s) = Inr True"
    by (rule getRunId_isSwitch [OF r])
  show ?thesis
    by (simp add: startSwitch_def bind_proj sw assms ret_def reads)
qed

theorem startSwitch_already_running_witness:
  "outcome (isRunning demo (JStr ''sw'') running_store) = Inr True
   \<and> outcome (startSwitch demo (JStr ''sw'') 10 running_store) = Inr False
   \<and> final (startSwitch demo (JStr ''sw'') 10 running_store) = running_store
   \<and> list_all is_walk (requests (startSwitch demo (JStr ''sw'') 10 running_store))"
  using startSwitch_already_running [OF demo_running, of 10] demo_running by simp

text \<open>
  Claim C9. On a switch that runs, when the walk over \<open>networking.vswitch\<close> returns an empty
  \<open>children\<close> list, \<open>getNetworkingId\<close> ends in the IndexError of \<open>result['children'][0]\<close>, and so
  does \<open>addDomain\<close>, which calls it unguarded.
\<close>

theorem getNetworkingId_empty_walk:
  assumes "outcome (isRunning self uuid s) = Inr True"
    and "outcome (invoke MWalk uuid (cid self) (JObj [(''tid'', JStr ''networking.vswitch'')]) s)
           = Inr (JObj [(''children'', JArr [])])"
  shows "outcome (getNetworkingId self uuid s) = Inl IndexError
       \<and> outcome (addDomain self uuid domainName s) = Inl IndexError"
proof -
  obtain r where r: "outcome (getRunId self uuid s) = Inr r" "r \<noteq> JNull"
    using running_getRunId [OF assms(1)] by blast
  have n: "outcome (getNetworkingId self uuid s) = Inl IndexError"
    using r assms(2) by (simp add: getNetworkingId_def walk_children_def bind_proj lift_def reads)
  show ?thesis
    using r n by (simp add: addDomain_def bind_proj reads)
qed

theorem getNetworkingId_empty_walk_witness:
  "outcome (isRunning demo (JStr ''sw'') running_store) = Inr True
   \<and> outcome (invoke MWalk (JStr ''sw'') (cid demo) (JObj [(''tid'', JStr ''networking.vswitch'')])
                running_store) = Inr (JObj [(''children'', JArr [])])
   \<and> outcome (getNetworkingId demo (JStr ''sw'') running_store) = Inl IndexError
   \<and> outcome (addDomain demo (JStr ''sw'') (JStr ''user2'') running_store) = Inl IndexError"
proof -
  have w: "outcome (invoke MWalk (JStr ''sw'') (cid demo) (JObj [(''tid'', JStr ''networking.vswitch'')])
                running_store) = Inr (JObj [(''children'', JArr [])])"
    by code_simp
  show ?thesis
    using getNetworkingId_empty_walk [OF demo_running w, of "JStr ''user2''"] demo_running w
    by simp
qed

section \<open>Requests of an execution\<close>

lemma outcome_bind:
  "outcome (bind m f s) =
     (case outcome (m s) of Inl e \<Rightarrow> Inl e | Inr x \<Rightarrow> outcome (f x (final (m s))))"
  by (simp add: bind_def split: prod.splits sum.splits)

lemma final_bind:
  "final (bind m f s) =
     (case outcome (m s) of Inl e \<Rightarrow> final (m s) | Inr x \<Rightarrow> final (f x (final (m s))))"
  by (simp add: bind_def split: prod.splits sum.splits)

lemma requests_bind:
  "requests (bind m f s) =
     (case outcome (m s) of
        Inl e \<Rightarrow> requests (m s)
      | Inr x \<Rightarrow> requests (m s) @ requests (f x (final (m s))))"
  by (simp add: bind_def split: prod.splits sum.splits)

lemmas bind_simps = outcome_bind final_bind requests_bind

lemma requests_invoke: "requests (invoke m target c params s) = [Invoke m target c params]"
  by (simp add: invoke_def Let_def split: rpc_method.splits option.splits prod.splits)

lemma walks_not_sets: "list_all is_walk t \<Longrightarrow> list_all (\<lambda>ev. is_set ev \<longrightarrow> P ev) t"
proof (induction t)
  case Nil
  then show ?case by simp
next
  case (Cons ev t)
  then show ?case by (cases ev) auto
qed

lemma all_bind:
  assumes "list_all Q (requests (m s))" and "\<And>x. list_all Q (requests (f x (final (m s))))"
  shows "list_all Q (requests (bind m f s))"
  using assms by (simp add: requests_bind split: sum.splits)

lemma all_if:
  "list_all Q (requests (a s)) \<Longrightarrow> list_all Q (requests (b s))
     \<Longrightarrow> list_all Q (requests ((if c then a else b) s))"
  by simp

lemma all_ret: "list_all Q (requests (ret x s))"
  by (simp add: ret_def)

lemma all_lift: "list_all Q (requests (lift r s))"
  by (simp add: lift_def)

lemma all_invoke:
  "Q (Invoke m target c params) \<Longrightarrow> list_all Q (requests (invoke m target c params s))"
  by (simp add: requests_invoke)

lemma all_reader: "reader m \<Longrightarrow> list_all (\<lambda>ev. is_set ev \<longrightarrow> P ev) (requests (m s))"
  by (simp add: walks_not_sets reader_requests)

section \<open>Bindings of GRE ports: the second definition of isPortGreDomain\<close>

text \<open>
  Claim C1 (fails on the code). \<open>deleteDomain\<close> on the domain \<open>d1\<close> of \<open>running_store\<close>, to which
  the GRE port \<open>p1\<close> and the VLAN port \<open>v1\<close> are bound: it returns \<open>True\<close> and the domain is
  gone, but the binding of \<open>p1\<close> and the port \<open>p1\<close> are still in the store. The requests it
  sent delete the VLAN binding, the VLAN port and the domain: \<open>deletePortGreDomain\<close> and
  \<open>deletePortGre\<close> both returned \<open>False\<close> without a request, and \<open>deleteDomainPorts\<close> drops
  what they return.
\<close>

theorem deleteDomain_leaves_gre_binding:
  "domain_view (JStr ''sw'') (deleteDomain demo (JStr ''sw'') (JStr ''d1'') running_store) =
     (Inr True,
      [],
      [gre_binding ''d1'' ''p1'' ''b1''],
      [snd (gre_object ''p1'')],
      [],
      [Invoke MDelete (JStr ''sw'') (JStr ''magic'')
         (JObj [(''tid'', JStr ''networking.vswitch.domain.ports''),
                (''domain'', JObj [(''tid'', JStr ''networking.vswitch.domain''), (''id'', JStr ''d1'')]),
                (''port'', JObj [(''tid'', JStr ''networking.port.raw''), (''id'', JStr ''v1'')])]),
       Invoke MDelete (JStr ''sw'') (JStr ''magic'')
         (JObj [(''tid'', JStr ''networking.port.raw''), (''id'', JStr ''v1'')]),
       Invoke MDelete (JStr ''sw'') (JStr ''magic'')
         (JObj [(''tid'', JStr ''networking.vswitch.domain''), (''id'', JStr ''d1'')])])"
  by code_simp

text \<open>
  Claim C3 (fails on the code). \<open>addPortGreDomain\<close> for the pair \<open>(d1, p1)\<close>, which
  \<open>running_store\<close> already binds: it returns \<open>True\<close> and the store holds a second binding of
  the same pair afterwards.
\<close>

theorem addPortGreDomain_binds_twice:
  "domain_view (JStr ''sw'')
     (addPortGreDomain demo (JStr ''sw'') (JStr ''d1'') (JStr ''p1'') running_store) =
     (Inr True,
      [snd (domain_object ''d1'')],
      [gre_binding ''d1'' ''p1'' ''b1'', vlan_binding ''d1'' ''v1'' ''b2'',
       gre_binding ''d1'' ''p1'' ''7''],
      [snd (gre_object ''p1'')],
      [snd (vlan_object ''v1'')],
      [Invoke MSet (JStr ''sw'') (JStr ''magic'')
         (JObj [(''tid'', JStr ''networking.vswitch.domain.ports''),
                (''domain'', JObj [(''tid'', JStr ''networking.vswitch.domain''), (''id'', JStr ''d1'')]),
                (''port'', JObj [(''tid'', JStr ''networking.port.gre''), (''id'', JStr ''p1'')])])])"
  by code_simp

section \<open>Networks\<close>

text \<open>
  Claim C6 (fails on the code). \<open>addNetwork\<close> with a CIDR on \<open>strict_store\<close>, which rejects
  the creation of the subnet: \<open>addSubnet\<close> raises, so \<open>addNetwork\<close> ends in \<open>CvbnApiFailure\<close>
  instead of returning \<open>None\<close>, no delete is sent, and the network \<open>n\<close> it created is still
  in the store.
\<close>

theorem addNetwork_keeps_network_on_store_error:
  "network_view (JStr ''sw'')
     (addNetwork demo (JStr ''sw'') (JStr ''n'') (JStr ''eth0'') (JStr ''10.0.0.0/24'') strict_store) =
     (Inl CvbnApiFailure,
      [Some (JStr ''vm''), Some (JStr ''n'')],
      [Invoke MSet (JStr ''sw'') (JStr ''magic'')
         (JObj [(''tid'', JStr ''networking.network''), (''network_type'', JStr ''associate''),
                (''name'', JStr ''n''), (''host_interface'', JStr ''eth0'')]),
       Invoke MSet (JStr ''sw'') (JStr ''magic'')
         (JObj [(''tid'', JStr ''networking.subnet''), (''network_id'', JStr ''7''),
                (''cidr'', JStr ''10.0.0.0/24'')])])"
  by code_simp

section \<open>GRE ports\<close>

text \<open>
  Claim C7 as stated fails: with neither address supplied, the one \<open>set\<close> request of
  \<open>addPortGre\<close> carries both \<open>local_endpoint\<close> and \<open>remote_endpoint\<close>, each an empty object.
\<close>

theorem addPortGre_sends_empty_endpoints:
  "map (field ''local_endpoint'') (map request_params (filter is_set (requests
      (addPortGre demo (JStr ''sw'') (JStr ''s1'') (JStr ''gre11'') JNull JNull (JBool False) (JBool False)
         running_store)))) = [Some (JObj [])]
   \<and> map (field ''remote_endpoint'') (map request_params (filter is_set (requests
      (addPortGre demo (JStr ''sw'') (JStr ''s1'') (JStr ''gre11'') JNull JNull (JBool False) (JBool False)
         running_store)))) = [Some (JObj [])]"
  by code_simp

text \<open>
  Claim C7, amended. In every \<open>set\<close> request that \<open>addPortGre\<close> sends, \<open>local_endpoint\<close> is
  present: the empty object when \<open>local_ip\<close> is \<open>None\<close>, the object with the one field
  \<open>ip_address\<close> otherwise; and the same for \<open>remote_endpoint\<close> and \<open>remote_ip\<close>.
\<close>

theorem addPortGre_endpoints:
  "list_all (\<lambda>ev. is_set ev \<longrightarrow>
       field ''local_endpoint'' (request_params ev)
         = Some (if local_ip = JNull then JObj [] else JObj [(''ip_address'', local_ip)])
     \<and> field ''remote_endpoint'' (request_params ev)
         = Some (if remote_ip = JNull then JObj [] else JObj [(''ip_address'', remote_ip)]))
     (requests (addPortGre self uuid subnetId portName local_ip remote_ip checksum seqnum s))"
  unfolding addPortGre_def getSubnetId_def
  by (intro all_bind all_if all_ret all_lift all_invoke all_reader) simp_all

theorem addPortGre_endpoints_witness:
  "list_ex is_set (requests (addPortGre demo (JStr ''sw'') (JStr ''s1'') (JStr ''gre11'') JNull
       (JStr ''10.0.0.9'') (JBool False) (JBool False) running_store))
   \<and> list_all (\<lambda>ev. is_set ev \<longrightarrow>
       field ''local_endpoint'' (request_params ev) = Some (JObj [])
     \<and> field ''remote_endpoint'' (request_params ev) = Some (JObj [(''ip_address'', JStr ''10.0.0.9'')]))
     (requests (addPortGre demo (JStr ''sw'') (JStr ''s1'') (JStr ''gre11'') JNull
       (JStr ''10.0.0.9'') (JBool False) (JBool False) running_store))"
proof -
  have a: "list_ex is_set (requests (addPortGre demo (JStr ''sw'') (JStr ''s1'') (JStr ''gre11'') JNull
       (JStr ''10.0.0.9'') (JBool False) (JBool False) running_store))"
    by code_simp
  show ?thesis
    using a addPortGre_endpoints [of JNull "JStr ''10.0.0.9''" demo "JStr ''sw''" "JStr ''s1''"
        "JStr ''gre11''" "JBool False" "JBool False" running_store]
    by simp
qed

section \<open>What the getters compute, what the store does\<close>

lemma walk_children_eval:
  "walk_children self target tid s =
     (if faulty s (Invoke MWalk target (cid self) (JObj [(''tid'', JStr tid)]))
      then Inl CvbnApiFailure
      else Inr (JArr (children s target (Some (JStr tid)))),
      s, [Invoke MWalk target (cid self) (JObj [(''tid'', JStr tid)])])"
  by (simp add: walk_children_def bind_def invoke_def lift_def Let_def)

lemma isSwitch_eval:
  "outcome (isSwitch self uuid s) =
     (if faulty s (Invoke MWalk (agent self) (cid self) (JObj [(''tid'', JStr ''compute.vswitch'')]))
      then Inl CvbnApiFailure
      else isSwitch_loop (children s (agent self) (Some (JStr ''compute.vswitch''))) uuid)"
  by (simp add: isSwitch_def bind_simps walk_children_eval lift_def)

lemma getRunId_eval:
  "outcome (getRunId self uuid s) =
     (case outcome (isSwitch self uuid s) of
        Inl e \<Rightarrow> Inl e
      | Inr defined \<Rightarrow>
          if \<not> defined then Inr JNull
          else if faulty s (Invoke MWalk (agent self) (cid self) (JObj [(''tid'', JStr ''compute.server'')]))
          then Inl CvbnApiFailure
          else getRunId_loop (children s (agent self) (Some (JStr ''compute.server''))) uuid)"
  by (simp add: getRunId_def bind_simps walk_children_eval lift_def ret_def reads split: sum.splits)

lemma getRunId_cong:
  assumes "faulty s1 = faulty s"
    and "children s1 (agent self) (Some (JStr ''compute.vswitch''))
           = children s (agent self) (Some (JStr ''compute.vswitch''))"
    and "children s1 (agent self) (Some (JStr ''compute.server''))
           = children s (agent self) (Some (JStr ''compute.server''))"
  shows "outcome (getRunId self uuid s1) = outcome (getRunId self uuid s)"
  by (simp add: getRunId_eval isSwitch_eval assms cong: sum.case_cong if_cong)

lemma getById_eval:
  "outcome (getById tid self uuid ident s) =
     (case outcome (getRunId self uuid s) of
        Inl e \<Rightarrow> Inl e
      | Inr runId \<Rightarrow>
          if runId = JNull then Inr JNull
          else if faulty s (Invoke MWalk uuid (cid self) (JObj [(''tid'', JStr tid)]))
          then Inl CvbnApiFailure
          else getId_loop (children s uuid (Some (JStr tid))) ident)"
  by (simp add: getById_def bind_simps walk_children_eval lift_def ret_def reads split: sum.splits)

lemma field_set_field:
  "field k (set_field k' v r) = (if k = k' then Some v else field k r)"
  by (cases r) (simp_all add: update_conv')

lemma subscript_field: "subscript r k = (case r of JObj kvs \<Rightarrow> (case field k r of None \<Rightarrow> Inl KeyError | Some v \<Rightarrow> Inr v) | _ \<Rightarrow> Inl TypeError)"
  by (cases r) simp_all

lemma set_field_obj: "\<exists>kvs. set_field k v r = JObj kvs"
  by (cases r) simp_all

lemma subscript_set_field:
  "subscript (set_field k' v r) k = (if k = k' then Inr v else case field k r of None \<Rightarrow> Inl KeyError | Some w \<Rightarrow> Inr w)"
  by (cases r) (simp_all add: update_conv')

lemma store_set_id: "subscript (fst (store_set target params s)) ''id'' = Inr (fresh_id (next_id s))"
  by (simp add: store_set_def Let_def subscript_set_field field_set_field)

lemma store_set_tid: "field ''tid'' (fst (store_set target params s)) = field ''tid'' params"
  by (simp add: store_set_def Let_def field_set_field)

lemma faulty_store_set: "faulty (snd (store_set target params s)) = faulty s"
  by (simp add: store_set_def Let_def)

lemma children_store_set:
  assumes "field ''tid'' params \<noteq> Some (JStr ''networking.subnet'')"
  shows "children (snd (store_set target params s)) tg tid =
           children s tg tid @
             (if tg = target \<and> tid = field ''tid'' params then [fst (store_set target params s)] else [])"
  using assms by (auto simp: store_set_def Let_def children_def field_set_field)

lemma invoke_set_eval:
  "invoke MSet target c params s =
     (if faulty s (Invoke MSet target c params) then (Inl CvbnApiFailure, s, [Invoke MSet target c params])
      else (Inr (fst (store_set target params s)), snd (store_set target params s),
            [Invoke MSet target c params]))"
  by (simp add: invoke_def Let_def split: prod.splits)

lemma invoke_delete_eval:
  "invoke MDelete target c params s =
     (if faulty s (Invoke MDelete target c params) then (Inl CvbnApiFailure, s, [Invoke MDelete target c params])
      else (Inr JNull, store_delete target params s, [Invoke MDelete target c params]))"
  by (simp add: invoke_def Let_def)

lemma faulty_store_delete: "faulty (store_delete target params s) = faulty s"
  by (simp add: store_delete_def)

lemma children_store_delete:
  "children (store_delete target params s) tg tid =
     filter (\<lambda>r. \<not> (tg = target \<and> agrees params r)) (children s tg tid)"
  by (simp add: store_delete_def children_def filter_map comp_def) (metis (mono_tags, lifting))

lemma mutations_append: "mutations (a @ b) = mutations a @ mutations b"
  by (simp add: mutations_def)

lemma mutations_walks: "list_all is_walk t \<Longrightarrow> mutations t = []"
  by (induction t) (simp_all add: mutations_def)

lemma string_of_nat_nonempty: "string_of_nat n \<noteq> []"
  by (subst string_of_nat.simps) simp

lemma truthy_fresh_id: "truthy (fresh_id n)"
  by (simp add: fresh_id_def string_of_nat_nonempty)

lemma mutations_Nil: "mutations [] = []"
  by (simp add: mutations_def)

lemma mutations_Cons: "mutations (ev # t) = (if is_walk ev then mutations t else ev # mutations t)"
  by (simp add: mutations_def)

lemmas mut_simps = mutations_Nil mutations_Cons mutations_append

lemma mutations_reader: "reader m \<Longrightarrow> mutations (requests (m s)) = []"
  by (simp add: mutations_walks reader_requests)

lemmas muts =
  mutations_reader [OF reader_isSwitch] mutations_reader [OF reader_getRunId]
  mutations_reader [OF reader_isRunning] mutations_reader [OF reader_getById]
  mutations_reader [OF reader_getDomains] mutations_reader [OF reader_isPortGreDomain]
  mutations_reader [OF reader_isPortGreAnyDomain] mutations_reader [OF reader_isConnectedToMux]
  mutations_reader [OF reader_walk_children]

lemma has_id_not_null: "subscript x ''id'' = Inr j \<Longrightarrow> x \<noteq> JNull"
  by auto

lemma getId_loop_append_found:
  assumes "list_all has_id xs" and "subscript y ''id'' = Inr i"
  shows "\<exists>x. getId_loop (xs @ [y]) i = Inr x \<and> x \<noteq> JNull"
  using assms
proof (induction xs)
  case Nil
  then show ?case by (auto simp: has_id_not_null)
next
  case (Cons x xs)
  then obtain j where j: "subscript x ''id'' = Inr j"
    by (cases "subscript x ''id''") (auto simp: has_id_def)
  show ?case
  proof (cases "j = i")
    case True
    then show ?thesis using j by (auto simp: has_id_not_null)
  next
    case False
    then show ?thesis using j Cons by simp
  qed
qed

lemma next_id_store_set: "next_id (snd (store_set target params s)) = Suc (next_id s)"
  by (simp add: store_set_def Let_def)

lemma ok_Inr: "ok r \<Longrightarrow> \<exists>x. r = Inr x"
  by (cases r) simp_all

lemma isPortDomain_loop_wf:
  "list_all binding_wf bs \<Longrightarrow>
     isPortDomain_loop kind bs p d = Inr (list_ex (is_binding_of kind d p) bs)"
proof (induction bs)
  case Nil
  then show ?case by simp
next
  case (Cons b bs)
  then obtain d' t' p' where f: "subscript2 b ''domain'' ''id'' = Inr d'"
      "subscript2 b ''port'' ''tid'' = Inr t'" "subscript2 b ''port'' ''id'' = Inr p'"
    by (auto simp: binding_wf_def dest!: ok_Inr)
  show ?case using Cons f by (auto simp: is_binding_of_def port_of_def)
qed

lemma isPortGreDomain_eval:
  "outcome (isPortGreDomain self uuid p d s) =
     (case outcome (getRunId self uuid s) of
        Inl e \<Rightarrow> Inl e
      | Inr r \<Rightarrow>
          if r = JNull then Inr False
          else if faulty s (Invoke MWalk uuid (cid self)
                              (JObj [(''tid'', JStr ''networking.vswitch.domain.ports'')]))
          then Inl CvbnApiFailure
          else isPortDomain_loop ''networking.port.gre''
                 (children s uuid (Some (JStr ''networking.vswitch.domain.ports''))) p d)"
  by (simp add: isPortGreDomain_def bind_simps walk_children_eval lift_def ret_def reads
        split: sum.splits)

lemma isPortGreAnyDomain_loop_eval:
  assumes r: "outcome (getRunId self uuid s) = Inr r" "r \<noteq> JNull"
    and accept: "\<not> faulty s (Invoke MWalk uuid (cid self)
                              (JObj [(''tid'', JStr ''networking.vswitch.domain.ports'')]))"
    and wfb: "list_all binding_wf (children s uuid (Some (JStr ''networking.vswitch.domain.ports'')))"
  shows "list_all has_id ds \<Longrightarrow>
     outcome (isPortGreAnyDomain_loop self uuid p ds s) =
       Inr (\<exists>dom \<in> set ds. \<exists>d. subscript dom ''id'' = Inr d
              \<and> list_ex (is_binding_of ''networking.port.gre'' d p)
                    (children s uuid (Some (JStr ''networking.vswitch.domain.ports''))))"
proof (induction ds)
  case Nil
  then show ?case by (simp add: ret_def)
next
  case (Cons dom ds)
  then obtain d where d: "subscript dom ''id'' = Inr d"
    by (auto simp: has_id_def dest!: ok_Inr)
  have m: "outcome (isPortGreDomain self uuid p d s) =
             Inr (list_ex (is_binding_of ''networking.port.gre'' d p)
                    (children s uuid (Some (JStr ''networking.vswitch.domain.ports''))))"
    by (simp add: isPortGreDomain_eval r accept isPortDomain_loop_wf [OF wfb])
  show ?case
    using Cons d by (auto simp: bind_simps lift_def reads m ret_def)
qed

lemma getDomains_eval:
  "outcome (getDomains self uuid s) =
     (case outcome (getRunId self uuid s) of
        Inl e \<Rightarrow> Inl e
      | Inr r \<Rightarrow>
          if r = JNull then Inr JNull
          else if faulty s (Invoke MWalk uuid (cid self)
                              (JObj [(''tid'', JStr ''networking.vswitch.domain'')]))
          then Inl CvbnApiFailure
          else Inr (JArr (children s uuid (Some (JStr ''networking.vswitch.domain'')))))"
  by (simp add: getDomains_def bind_simps walk_children_eval ret_def reads split: sum.splits)

lemma children_tid: "r \<in> set (children s target tid) \<Longrightarrow> field ''tid'' r = tid"
  by (auto simp: children_def)

lemma demo_accepts: "\<not> faulty running_store ev"
  by (simp add: running_store_def store_of_def accepting_def)

lemma unbound_accepts: "\<not> faulty unbound_store ev"
  by (simp add: unbound_store_def store_of_def accepting_def)

section \<open>The CIDR argument of addNetwork\<close>

text \<open>
  Claim C10. On a running switch whose store accepts every request: with \<open>ipv4Subnet\<close> the
  string \<open>"None"\<close>, \<open>addNetwork\<close> returns the id of the network and the only request besides
  walks is the creation of the network; with any other value, \<open>None\<close> included, and networks
  that all have an \<open>id\<close>, it goes on to send the creation of a subnet whose \<open>cidr\<close> is that
  value.
\<close>

theorem addNetwork_cidr_none:
  assumes run: "outcome (isRunning self uuid s) = Inr True"
    and accept: "\<And>ev. \<not> faulty s ev"
  shows "(ipv4Subnet = JStr ''None'' \<longrightarrow>
            outcome (addNetwork self uuid networkName hostInterface ipv4Subnet s)
              = Inr (fresh_id (next_id s))
          \<and> mutations (requests (addNetwork self uuid networkName hostInterface ipv4Subnet s))
              = [Invoke MSet uuid (cid self)
                   (JObj [(''tid'', JStr ''networking.network''),
                          (''network_type'', JStr ''associate''),
                          (''name'', networkName),
                          (''host_interface'', hostInterface)])])
       \<and> (ipv4Subnet \<noteq> JStr ''None''
            \<and> list_all has_id (children s uuid (Some (JStr ''networking.network''))) \<longrightarrow>
            outcome (addNetwork self uuid networkName hostInterface ipv4Subnet s)
              = Inr (fresh_id (next_id s))
          \<and> mutations (requests (addNetwork self uuid networkName hostInterface ipv4Subnet s))
              = [Invoke MSet uuid (cid self)
                   (JObj [(''tid'', JStr ''networking.network''),
                          (''network_type'', JStr ''associate''),
                          (''name'', networkName),
                          (''host_interface'', hostInterface)]),
                 Invoke MSet uuid (cid self)
                   (JObj [(''tid'', JStr ''networking.subnet''),
                          (''network_id'', fresh_id (next_id s)),
                          (''cidr'', ipv4Subnet)])])"
proof -
  let ?np = "JObj [(''tid'', JStr ''networking.network''), (''network_type'', JStr ''associate''),
                   (''name'', networkName), (''host_interface'', hostInterface)]"
  let ?i = "fresh_id (next_id s)"
  let ?s1 = "snd (store_set uuid ?np s)"
  let ?sp = "JObj [(''tid'', JStr ''networking.subnet''), (''network_id'', ?i), (''cidr'', ipv4Subnet)]"
  obtain r where r: "outcome (getRunId self uuid s) = Inr r" "r \<noteq> JNull"
    using running_getRunId [OF run] by blast
  have set1: "invoke MSet uuid (cid self) ?np s
                = (Inr (fst (store_set uuid ?np s)), ?s1, [Invoke MSet uuid (cid self) ?np])"
    by (simp add: invoke_set_eval accept)
  have id1: "subscript (fst (store_set uuid ?np s)) ''id'' = Inr ?i"
    by (rule store_set_id)
  have accept1: "\<not> faulty ?s1 ev" for ev
    by (simp add: faulty_store_set accept)
  have run1: "outcome (getRunId self uuid ?s1) = Inr r"
    using r(1) by (simp add: getRunId_cong [of ?s1 s] faulty_store_set children_store_set)
  have b: "outcome (addNetwork self uuid networkName hostInterface ipv4Subnet s) = Inr ?i
           \<and> mutations (requests (addNetwork self uuid networkName hostInterface ipv4Subnet s))
               = [Invoke MSet uuid (cid self) ?np, Invoke MSet uuid (cid self) ?sp]"
    if cidr: "ipv4Subnet \<noteq> JStr ''None''"
      and wf: "list_all has_id (children s uuid (Some (JStr ''networking.network'')))"
  proof -
    have kids: "children ?s1 uuid (Some (JStr ''networking.network''))
                  = children s uuid (Some (JStr ''networking.network'')) @ [fst (store_set uuid ?np s)]"
      by (simp add: children_store_set)
    obtain x where x: "getId_loop (children ?s1 uuid (Some (JStr ''networking.network''))) ?i = Inr x"
        "x \<noteq> JNull"
      using getId_loop_append_found [OF wf id1] kids by auto
    have net1: "outcome (getById ''networking.network'' self uuid ?i ?s1) = Inr x"
      by (simp add: getById_eval run1 r(2) accept1 x(1))
    have set2: "invoke MSet uuid (cid self) ?sp ?s1
                  = (Inr (fst (store_set uuid ?sp ?s1)), snd (store_set uuid ?sp ?s1),
                     [Invoke MSet uuid (cid self) ?sp])"
      by (simp add: invoke_set_eval accept1)
    have sub_out: "outcome (addSubnet self uuid ?i ipv4Subnet ?s1) = Inr (fresh_id (Suc (next_id s)))"
      by (simp add: addSubnet_def bind_simps reads run1 r(2) net1 x(2) set2 lift_def store_set_id
            next_id_store_set getNetworkId_def)
    have sub_req: "mutations (requests (addSubnet self uuid ?i ipv4Subnet ?s1))
                     = [Invoke MSet uuid (cid self) ?sp]"
      by (simp add: addSubnet_def bind_simps reads run1 r(2) net1 x(2) set2 lift_def
            mut_simps muts getNetworkId_def)
    show ?thesis
      using cidr
      by (simp add: addNetwork_def bind_simps reads r set1 id1 lift_def ret_def mut_simps muts
            sub_out sub_req truthy_fresh_id)
  qed
  have a: "ipv4Subnet = JStr ''None'' \<Longrightarrow>
             outcome (addNetwork self uuid networkName hostInterface ipv4Subnet s) = Inr ?i
           \<and> mutations (requests (addNetwork self uuid networkName hostInterface ipv4Subnet s))
               = [Invoke MSet uuid (cid self) ?np]"
    by (simp add: addNetwork_def bind_simps reads r set1 id1 lift_def ret_def mut_simps muts)
  show ?thesis using a b by blast
qed

theorem addNetwork_cidr_none_witness:
  "outcome (isRunning demo (JStr ''sw'') running_store) = Inr True
   \<and> list_all has_id (children running_store (JStr ''sw'') (Some (JStr ''networking.network'')))
   \<and> outcome (addNetwork demo (JStr ''sw'') (JStr ''n'') (JStr ''eth0'') (JStr ''None'') running_store)
       = Inr (JStr ''7'')
   \<and> mutations (requests
         (addNetwork demo (JStr ''sw'') (JStr ''n'') (JStr ''eth0'') (JStr ''None'') running_store))
       = [Invoke MSet (JStr ''sw'') (cid demo)
            (JObj [(''tid'', JStr ''networking.network''), (''network_type'', JStr ''associate''),
                   (''name'', JStr ''n''), (''host_interface'', JStr ''eth0'')])]
   \<and> outcome (addNetwork demo (JStr ''sw'') (JStr ''n'') (JStr ''eth0'') JNull running_store)
       = Inr (JStr ''7'')
   \<and> mutations (requests
         (addNetwork demo (JStr ''sw'') (JStr ''n'') (JStr ''eth0'') JNull running_store))
       = [Invoke MSet (JStr ''sw'') (cid demo)
            (JObj [(''tid'', JStr ''networking.network''), (''network_type'', JStr ''associate''),
                   (''name'', JStr ''n''), (''host_interface'', JStr ''eth0'')]),
          Invoke MSet (JStr ''sw'') (cid demo)
            (JObj [(''tid'', JStr ''networking.subnet''), (''network_id'', JStr ''7''),
                   (''cidr'', JNull)])]"
proof -
  have wf: "list_all has_id (children running_store (JStr ''sw'') (Some (JStr ''networking.network'')))"
    by code_simp
  have i: "fresh_id (next_id running_store) = JStr ''7''"
    by code_simp
  show ?thesis
    using addNetwork_cidr_none [OF demo_running demo_accepts, of "JStr ''None''" "JStr ''n''" "JStr ''eth0''"]
      addNetwork_cidr_none [OF demo_running demo_accepts, of JNull "JStr ''n''" "JStr ''eth0''"]
      demo_running wf
    by (simp add: i)
qed

section \<open>Deleting a GRE port\<close>

text \<open>
  Claim C5. On a running switch whose store accepts every request, with bindings that have
  their three fields and domains that have an \<open>id\<close>, for a GRE port that \<open>getPortGreId\<close>
  finds: when a binding ties the port to one of the domains of the switch, \<open>deletePortGre\<close>
  returns \<open>False\<close> and the store is unchanged; when no binding names the port, it returns
  \<open>True\<close> and no GRE port with that id is listed afterwards.
\<close>

theorem deletePortGre_guard:
  assumes run: "outcome (isRunning self uuid s) = Inr True"
    and accept: "\<And>ev. \<not> faulty s ev"
    and port: "outcome (getPortGreId self uuid portId s) = Inr port" "port \<noteq> JNull"
    and wfb: "list_all binding_wf (children s uuid (Some (JStr ''networking.vswitch.domain.ports'')))"
    and wfd: "list_all has_id (children s uuid (Some (JStr ''networking.vswitch.domain'')))"
  shows "((\<exists>dom \<in> set (children s uuid (Some (JStr ''networking.vswitch.domain''))).
           \<exists>b \<in> set (children s uuid (Some (JStr ''networking.vswitch.domain.ports''))).
           \<exists>d. subscript dom ''id'' = Inr d \<and> is_binding_of ''networking.port.gre'' d portId b)
          \<longrightarrow> outcome (deletePortGre self uuid portId s) = Inr False
            \<and> final (deletePortGre self uuid portId s) = s)
       \<and> (\<not> list_ex (port_of ''networking.port.gre'' portId)
               (children s uuid (Some (JStr ''networking.vswitch.domain.ports'')))
          \<longrightarrow> outcome (deletePortGre self uuid portId s) = Inr True
            \<and> \<not> list_ex (\<lambda>r. field ''id'' r = Some portId)
                  (children (final (deletePortGre self uuid portId s)) uuid
                     (Some (JStr ''networking.port.gre''))))"
proof -
  let ?bs = "children s uuid (Some (JStr ''networking.vswitch.domain.ports''))"
  let ?ds = "children s uuid (Some (JStr ''networking.vswitch.domain''))"
  let ?bound = "\<exists>dom \<in> set ?ds. \<exists>d. subscript dom ''id'' = Inr d
                  \<and> list_ex (is_binding_of ''networking.port.gre'' d portId) ?bs"
  obtain r where r: "outcome (getRunId self uuid s) = Inr r" "r \<noteq> JNull"
    using running_getRunId [OF run] by blast
  have any: "outcome (isPortGreAnyDomain self uuid portId s) = Inr ?bound"
    by (simp add: isPortGreAnyDomain_def bind_simps reads r getDomains_eval accept lift_def
          isPortGreAnyDomain_loop_eval [OF r accept wfb wfd])
  have port': "outcome (getById ''networking.port.gre'' self uuid portId s) = Inr port"
    using port(1) by (simp add: getPortGreId_def)
  have del: "invoke MDelete uuid (cid self)
               (JObj [(''tid'', JStr ''networking.port.gre''), (''id'', portId)]) s
             = (Inr JNull,
                store_delete uuid (JObj [(''tid'', JStr ''networking.port.gre''), (''id'', portId)]) s,
                [Invoke MDelete uuid (cid self)
                   (JObj [(''tid'', JStr ''networking.port.gre''), (''id'', portId)])])"
    by (simp add: invoke_delete_eval accept)
  have a: "?bound \<Longrightarrow> outcome (deletePortGre self uuid portId s) = Inr False
            \<and> final (deletePortGre self uuid portId s) = s"
    by (simp add: deletePortGre_def getPortGreId_def bind_simps reads r port' port(2) any ret_def)
  have nb: "\<not> list_ex (port_of ''networking.port.gre'' portId) ?bs \<Longrightarrow> \<not> ?bound"
    by (auto simp: list_ex_iff is_binding_of_def)
  have b: "\<not> list_ex (port_of ''networking.port.gre'' portId) ?bs \<Longrightarrow>
             outcome (deletePortGre self uuid portId s) = Inr True
           \<and> \<not> list_ex (\<lambda>r. field ''id'' r = Some portId)
                  (children (final (deletePortGre self uuid portId s)) uuid
                     (Some (JStr ''networking.port.gre'')))"
    using nb
    by (auto simp: deletePortGre_def getPortGreId_def bind_simps reads r port' port(2) any ret_def
          del children_store_delete list_ex_iff dest: children_tid)
  have c: "(\<exists>dom \<in> set ?ds. \<exists>b \<in> set ?bs. \<exists>d. subscript dom ''id'' = Inr d
              \<and> is_binding_of ''networking.port.gre'' d portId b) \<Longrightarrow> ?bound"
    by (auto simp: list_ex_iff)
  show ?thesis using a b c by blast
qed

theorem deletePortGre_guard_witness:
  "outcome (isRunning demo (JStr ''sw'') running_store) = Inr True
   \<and> snd (domain_object ''d1'') \<in> set (children running_store (JStr ''sw'') (Some (JStr ''networking.vswitch.domain'')))
   \<and> gre_binding ''d1'' ''p1'' ''b1''
        \<in> set (children running_store (JStr ''sw'') (Some (JStr ''networking.vswitch.domain.ports'')))
   \<and> is_binding_of ''networking.port.gre'' (JStr ''d1'') (JStr ''p1'') (gre_binding ''d1'' ''p1'' ''b1'')
   \<and> outcome (deletePortGre demo (JStr ''sw'') (JStr ''p1'') running_store) = Inr False
   \<and> final (deletePortGre demo (JStr ''sw'') (JStr ''p1'') running_store) = running_store
   \<and> outcome (isRunning demo (JStr ''sw'') unbound_store) = Inr True
   \<and> \<not> list_ex (port_of ''networking.port.gre'' (JStr ''p1''))
         (children unbound_store (JStr ''sw'') (Some (JStr ''networking.vswitch.domain.ports'')))
   \<and> outcome (deletePortGre demo (JStr ''sw'') (JStr ''p1'') unbound_store) = Inr True
   \<and> \<not> list_ex (\<lambda>r. field ''id'' r = Some (JStr ''p1''))
         (children (final (deletePortGre demo (JStr ''sw'') (JStr ''p1'') unbound_store)) (JStr ''sw'')
            (Some (JStr ''networking.port.gre'')))"
proof -
  have run_u: "outcome (isRunning demo (JStr ''sw'') unbound_store) = Inr True"
    by code_simp
  have port: "outcome (getPortGreId demo (JStr ''sw'') (JStr ''p1'') running_store)
                = Inr (snd (gre_object ''p1''))" "snd (gre_object ''p1'') \<noteq> JNull"
    by code_simp+
  have port_u: "outcome (getPortGreId demo (JStr ''sw'') (JStr ''p1'') unbound_store)
                = Inr (snd (gre_object ''p1''))"
    by code_simp
  have wfb: "list_all binding_wf
               (children running_store (JStr ''sw'') (Some (JStr ''networking.vswitch.domain.ports'')))"
    and wfd: "list_all has_id
               (children running_store (JStr ''sw'') (Some (JStr ''networking.vswitch.domain'')))"
    and wfb_u: "list_all binding_wf
               (children unbound_store (JStr ''sw'') (Some (JStr ''networking.vswitch.domain.ports'')))"
    and wfd_u: "list_all has_id
               (children unbound_store (JStr ''sw'') (Some (JStr ''networking.vswitch.domain'')))"
    by code_simp+
  have dom: "snd (domain_object ''d1'')
               \<in> set (children running_store (JStr ''sw'') (Some (JStr ''networking.vswitch.domain'')))"
    and bnd: "gre_binding ''d1'' ''p1'' ''b1''
               \<in> set (children running_store (JStr ''sw'') (Some (JStr ''networking.vswitch.domain.ports'')))"
    and did: "subscript (snd (domain_object ''d1'')) ''id'' = Inr (JStr ''d1'')"
    and isb: "is_binding_of ''networking.port.gre'' (JStr ''d1'') (JStr ''p1'') (gre_binding ''d1'' ''p1'' ''b1'')"
    and free: "\<not> list_ex (port_of ''networking.port.gre'' (JStr ''p1''))
         (children unbound_store (JStr ''sw'') (Some (JStr ''networking.vswitch.domain.ports'')))"
    by code_simp+
  have bound: "\<exists>dom \<in> set (children running_store (JStr ''sw'') (Some (JStr ''networking.vswitch.domain''))).
           \<exists>b \<in> set (children running_store (JStr ''sw'') (Some (JStr ''networking.vswitch.domain.ports''))).
           \<exists>d. subscript dom ''id'' = Inr d \<and> is_binding_of ''networking.port.gre'' d (JStr ''p1'') b"
    using dom bnd did isb by blast
  show ?thesis
    using deletePortGre_guard [OF demo_running demo_accepts port wfb wfd]
      deletePortGre_guard [OF run_u unbound_accepts port_u port(2) wfb_u wfd_u]
      bound free demo_running run_u dom bnd isb
    by blast
qed

section \<open>Binding a GRE port and asking for the binding\<close>

text \<open>
  Claim C2 (fails on the code). On \<open>unbound_store\<close>, \<open>addPortGreDomain\<close> for the domain \<open>d1\<close> and
  the GRE port \<open>p1\<close> returns \<open>True\<close> and creates the binding of the pair. In the store it
  leaves, \<open>isPortGreDomain\<close> for the pair \<open>(d1, p1)\<close> returns \<open>False\<close>; it returns \<open>True\<close> only
  with the two ids exchanged. \<open>deletePortGreDomain\<close> for the pair \<open>(d1, p1)\<close> makes that same
  call, so it returns \<open>False\<close>, sends no request and leaves the binding where it is:
  \<open>isPortGreDomain\<close> with the ids exchanged still returns \<open>True\<close> afterwards.
\<close>

theorem addPortGreDomain_pair_not_found:
  "domain_view (JStr ''sw'')
     (addPortGreDomain demo (JStr ''sw'') (JStr ''d1'') (JStr ''p1'') unbound_store) =
     (Inr True,
      [snd (domain_object ''d1'')],
      [gre_binding ''d1'' ''p1'' ''7''],
      [snd (gre_object ''p1'')],
      [],
      [Invoke MSet (JStr ''sw'') (JStr ''magic'')
         (JObj [(''tid'', JStr ''networking.vswitch.domain.ports''),
                (''domain'', JObj [(''tid'', JStr ''networking.vswitch.domain''), (''id'', JStr ''d1'')]),
                (''port'', JObj [(''tid'', JStr ''networking.port.gre''), (''id'', JStr ''p1'')])])])
   \<and> outcome (isPortGreDomain demo (JStr ''sw'') (JStr ''d1'') (JStr ''p1'')
        (final (addPortGreDomain demo (JStr ''sw'') (JStr ''d1'') (JStr ''p1'') unbound_store)))
       = Inr False
   \<and> outcome (isPortGreDomain demo (JStr ''sw'') (JStr ''p1'') (JStr ''d1'')
        (final (addPortGreDomain demo (JStr ''sw'') (JStr ''d1'') (JStr ''p1'') unbound_store)))
       = Inr True
   \<and> domain_view (JStr ''sw'')
        (deletePortGreDomain demo (JStr ''sw'') (JStr ''d1'') (JStr ''p1'')
           (final (addPortGreDomain demo (JStr ''sw'') (JStr ''d1'') (JStr ''p1'') unbound_store))) =
       (Inr False,
        [snd (domain_object ''d1'')],
        [gre_binding ''d1'' ''p1'' ''7''],
        [snd (gre_object ''p1'')],
        [],
        [])
   \<and> outcome (isPortGreDomain demo (JStr ''sw'') (JStr ''p1'') (JStr ''d1'')
        (final (deletePortGreDomain demo (JStr ''sw'') (JStr ''d1'') (JStr ''p1'')
           (final (addPortGreDomain demo (JStr ''sw'') (JStr ''d1'') (JStr ''p1'') unbound_store)))))
       = Inr True"
  by code_simp

section \<open>Waiting for the connection to the mux\<close>

lemma isConnectedToMux_eval:
  "isConnectedToMux self uuid s =
     (if faulty s (Invoke MWalk (JStr ''0'') (cid self) (JObj [(''tid'', JStr ''connection'')]))
      then Inl CvbnApiFailure
      else isConnectedToMux_loop (children s (JStr ''0'') (Some (JStr ''connection''))) uuid,
      s, [Invoke MWalk (JStr ''0'') (cid self) (JObj [(''tid'', JStr ''connection'')])])"
  by (simp add: isConnectedToMux_def bind_def walk_children_eval lift_def)

lemma isConnectedToMux_triple:
  "isConnectedToMux self uuid s =
     (outcome (isConnectedToMux self uuid s), s,
      [Invoke MWalk (JStr ''0'') (cid self) (JObj [(''tid'', JStr ''connection'')])])"
  by (simp add: isConnectedToMux_eval)

lemma sleep_one: "sleep (Suc 0) s = (Inr (), tick s, [Sleep (Suc 0)])"
  by (simp add: sleep_def)

lemma wait_loop_connected:
  assumes "outcome (isConnectedToMux self uuid s) = Inr True"
  shows "wait_loop self uuid maxWait counter s =
           (Inr True, s, [Invoke MWalk (JStr ''0'') (cid self) (JObj [(''tid'', JStr ''connection'')])])"
proof -
  have c: "isConnectedToMux self uuid s
             = (Inr True, s, [Invoke MWalk (JStr ''0'') (cid self) (JObj [(''tid'', JStr ''connection'')])])"
    using assms isConnectedToMux_triple [of self uuid s] by simp
  show ?thesis by (subst wait_loop.simps) (simp add: c)
qed

lemma wait_loop_waiting:
  assumes "outcome (isConnectedToMux self uuid s) = Inr False"
  shows "wait_loop self uuid maxWait counter s =
           (if counter + 1 > maxWait
            then (Inr False, tick s,
                  [Invoke MWalk (JStr ''0'') (cid self) (JObj [(''tid'', JStr ''connection'')]),
                   Sleep (Suc 0)])
            else (outcome (wait_loop self uuid maxWait (counter + 1) (tick s)),
                  final (wait_loop self uuid maxWait (counter + 1) (tick s)),
                  [Invoke MWalk (JStr ''0'') (cid self) (JObj [(''tid'', JStr ''connection'')]),
                   Sleep (Suc 0)]
                  @ requests (wait_loop self uuid maxWait (counter + 1) (tick s))))"
proof -
  have c: "isConnectedToMux self uuid s
             = (Inr False, s, [Invoke MWalk (JStr ''0'') (cid self) (JObj [(''tid'', JStr ''connection'')])])"
    using assms isConnectedToMux_triple [of self uuid s] by simp
  show ?thesis by (subst wait_loop.simps) (simp add: c sleep_one split: prod.splits)
qed

lemma checks_simps:
  "checks self [] = 0"
  "checks self (ev # t) = (if is_check self ev then Suc (checks self t) else checks self t)"
  "checks self (a @ b) = checks self a + checks self b"
  by (simp_all add: checks_def)

lemma checks_none: "list_all (\<lambda>ev. \<not> is_check self ev) t \<Longrightarrow> checks self t = 0"
  by (induction t) (simp_all add: checks_simps)

lemma wait_loop_never:
  assumes "\<forall>j \<le> n. outcome (isConnectedToMux self uuid ((tick ^^ j) s)) = Inr False"
    and "maxWait - counter = int n"
  shows "outcome (wait_loop self uuid maxWait counter s) = Inr False
       \<and> final (wait_loop self uuid maxWait counter s) = (tick ^^ Suc n) s
       \<and> checks self (requests (wait_loop self uuid maxWait counter s)) = Suc n"
  using assms
proof (induction n arbitrary: counter s)
  case 0
  then have c: "outcome (isConnectedToMux self uuid s) = Inr False"
    by simp
  show ?case
    using 0(2) by (simp add: wait_loop_waiting [OF c] checks_simps is_check_def)
next
  case (Suc n)
  have c: "outcome (isConnectedToMux self uuid s) = Inr False"
    using Suc.prems(1) by (auto dest: spec [of _ 0])
  have later: "\<forall>j \<le> n. outcome (isConnectedToMux self uuid ((tick ^^ j) (tick s))) = Inr False"
  proof (intro allI impI)
    fix j assume "j \<le> n"
    then have "outcome (isConnectedToMux self uuid ((tick ^^ Suc j) s)) = Inr False"
      using Suc.prems(1) [rule_format, of "Suc j"] by simp
    then show "outcome (isConnectedToMux self uuid ((tick ^^ j) (tick s))) = Inr False"
      by (simp only: funpow_Suc_right o_apply)
  qed
  have cnt: "maxWait - (counter + 1) = int n"
    using Suc.prems(2) by simp
  note ih = Suc.IH [OF later cnt]
  have go: "\<not> counter + 1 > maxWait"
    using Suc.prems(2) by simp
  show ?case
    using ih go by (simp add: wait_loop_waiting [OF c] checks_simps is_check_def funpow_swap1)
qed

lemma wait_loop_found:
  assumes "\<forall>j < k. outcome (isConnectedToMux self uuid ((tick ^^ j) s)) = Inr False"
    and "outcome (isConnectedToMux self uuid ((tick ^^ k) s)) = Inr True"
    and "int k \<le> maxWait - counter"
  shows "outcome (wait_loop self uuid maxWait counter s) = Inr True
       \<and> final (wait_loop self uuid maxWait counter s) = (tick ^^ k) s
       \<and> checks self (requests (wait_loop self uuid maxWait counter s)) = Suc k"
  using assms
proof (induction k arbitrary: counter s)
  case 0
  then have c: "outcome (isConnectedToMux self uuid s) = Inr True"
    by simp
  show ?case
    by (simp add: wait_loop_connected [OF c] checks_simps is_check_def)
next
  case (Suc k)
  have c: "outcome (isConnectedToMux self uuid s) = Inr False"
    using Suc.prems(1) by (auto dest: spec [of _ 0])
  have later: "\<forall>j < k. outcome (isConnectedToMux self uuid ((tick ^^ j) (tick s))) = Inr False"
  proof (intro allI impI)
    fix j assume "j < k"
    then have "outcome (isConnectedToMux self uuid ((tick ^^ Suc j) s)) = Inr False"
      using Suc.prems(1) [rule_format, of "Suc j"] by simp
    then show "outcome (isConnectedToMux self uuid ((tick ^^ j) (tick s))) = Inr False"
      by (simp only: funpow_Suc_right o_apply)
  qed
  have hit: "outcome (isConnectedToMux self uuid ((tick ^^ k) (tick s))) = Inr True"
    using Suc.prems(2) by (simp only: funpow_Suc_right o_apply)
  have cnt: "int k \<le> maxWait - (counter + 1)"
    using Suc.prems(3) by simp
  note ih = Suc.IH [OF later hit cnt]
  have go: "\<not> counter + 1 > maxWait"
    using Suc.prems(3) by simp
  show ?case
    using ih go by (simp add: wait_loop_waiting [OF c] checks_simps is_check_def funpow_swap1)
qed

lemma children_tick:
  "children (tick s) t tid =
     children s t tid
     @ map snd (filter (\<lambda>tr. fst tr = t \<and> field ''tid'' (snd tr) = tid) (env s (Suc (clock s))))"
  by (simp add: children_def tick_def)

lemma tick_fields:
  "faulty (tick s) = faulty s" "env (tick s) = env s" "clock (tick s) = Suc (clock s)"
  by (simp_all add: tick_def)

lemma same_after_ticks:
  assumes "faulty s1 = faulty s" and "env s1 = env s" and "clock s1 = clock s"
    and "children s1 t tid = children s t tid"
  shows "faulty ((tick ^^ j) s1) = faulty ((tick ^^ j) s)
       \<and> env ((tick ^^ j) s1) = env ((tick ^^ j) s)
       \<and> clock ((tick ^^ j) s1) = clock ((tick ^^ j) s)
       \<and> children ((tick ^^ j) s1) t tid = children ((tick ^^ j) s) t tid"
proof (induction j)
  case 0
  then show ?case using assms by simp
next
  case (Suc j)
  then show ?case by (simp add: children_tick tick_fields)
qed

lemma faulty_ticks: "faulty ((tick ^^ j) s) = faulty s"
  by (induction j) (simp_all add: tick_fields)

lemma isConnectedToMux_cong:
  assumes "faulty s1 = faulty s"
    and "children s1 (JStr ''0'') (Some (JStr ''connection''))
           = children s (JStr ''0'') (Some (JStr ''connection''))"
  shows "outcome (isConnectedToMux self uuid s1) = outcome (isConnectedToMux self uuid s)"
  by (simp add: isConnectedToMux_eval assms)

lemma env_store_set: "env (snd (store_set target params s)) = env s"
  by (simp add: store_set_def Let_def)

lemma clock_store_set: "clock (snd (store_set target params s)) = clock s"
  by (simp add: store_set_def Let_def)

lemma isSwitch_no_checks: "list_all (\<lambda>ev. \<not> is_check self ev) (requests (isSwitch self uuid s))"
  unfolding isSwitch_def walk_children_def
  by (intro all_bind all_if all_ret all_lift all_invoke) (simp add: is_check_def)

lemma isRunning_no_checks: "list_all (\<lambda>ev. \<not> is_check self ev) (requests (isRunning self uuid s))"
  unfolding isRunning_def getRunId_def isSwitch_def walk_children_def
  by (intro all_bind all_if all_ret all_lift all_invoke) (simp_all add: is_check_def)

text \<open>
  Claim C4. For a switch that is defined and does not run, a store that accepts every
  request and \<open>maxWait \<ge> 0\<close>: when none of the checks at the ticks \<open>0 .. maxWait\<close> sees the
  connection, \<open>startSwitch\<close> returns \<open>False\<close> after exactly \<open>maxWait + 1\<close> checks; when the check
  at tick \<open>k \<le> maxWait\<close> is the first that sees it, \<open>startSwitch\<close> returns \<open>True\<close> after exactly
  \<open>k + 1\<close> checks. The check at tick \<open>j\<close> is \<open>isConnectedToMux\<close> on the store after \<open>j\<close> sleeps of
  one second.
\<close>

theorem startSwitch_wait:
  assumes defd: "outcome (isSwitch self uuid s) = Inr True"
    and stopped: "outcome (isRunning self uuid s) = Inr False"
    and accept: "\<And>ev. \<not> faulty s ev"
    and mw: "0 \<le> maxWait"
  shows "((\<forall>j \<le> nat maxWait. outcome (isConnectedToMux self uuid ((tick ^^ j) s)) = Inr False)
           \<longrightarrow> outcome (startSwitch self uuid maxWait s) = Inr False
             \<and> checks self (requests (startSwitch self uuid maxWait s)) = nat maxWait + 1)
       \<and> (\<forall>k \<le> nat maxWait.
            (\<forall>j < k. outcome (isConnectedToMux self uuid ((tick ^^ j) s)) = Inr False)
            \<and> outcome (isConnectedToMux self uuid ((tick ^^ k) s)) = Inr True
           \<longrightarrow> outcome (startSwitch self uuid maxWait s) = Inr True
             \<and> checks self (requests (startSwitch self uuid maxWait s)) = k + 1)"
proof -
  let ?cfg = "JObj [(''tid'', JStr ''compute.server''),
                    (''configuration'', JObj [(''tid'', JStr ''compute.vswitch''), (''id'', uuid)])]"
  let ?s1 = "snd (store_set (agent self) ?cfg s)"
  have set1: "invoke MSet (agent self) (cid self) ?cfg s
                = (Inr (fst (store_set (agent self) ?cfg s)), ?s1,
                   [Invoke MSet (agent self) (cid self) ?cfg])"
    by (simp add: invoke_set_eval accept)
  have same: "outcome (isConnectedToMux self uuid ((tick ^^ j) ?s1))
                = outcome (isConnectedToMux self uuid ((tick ^^ j) s))" for j
  proof -
    have "children ?s1 (JStr ''0'') (Some (JStr ''connection''))
            = children s (JStr ''0'') (Some (JStr ''connection''))"
      by (simp add: children_store_set)
    from same_after_ticks [OF faulty_store_set env_store_set clock_store_set this, of j]
    show ?thesis by (intro isConnectedToMux_cong) simp_all
  qed
  have nc1: "checks self (requests (isSwitch self uuid s)) = 0"
    by (rule checks_none [OF isSwitch_no_checks])
  have nc2: "checks self (requests (isRunning self uuid s)) = 0"
    by (rule checks_none [OF isRunning_no_checks])
  note defs = startSwitch_def bind_simps reads defd stopped set1 ret_def checks_simps nc1 nc2
    is_check_def
  have a: "outcome (startSwitch self uuid maxWait s) = Inr False
             \<and> checks self (requests (startSwitch self uuid maxWait s)) = nat maxWait + 1"
    if never: "\<forall>j \<le> nat maxWait. outcome (isConnectedToMux self uuid ((tick ^^ j) s)) = Inr False"
  proof -
    have f1: "\<forall>j \<le> nat maxWait. outcome (isConnectedToMux self uuid ((tick ^^ j) ?s1)) = Inr False"
      using never by (simp only: same)
    have f2: "maxWait - 0 = int (nat maxWait)"
      using mw by simp
    note w = wait_loop_never [OF f1 f2, THEN conjunct1]
      wait_loop_never [OF f1 f2, THEN conjunct2, THEN conjunct2]
    show ?thesis by (simp add: defs w)
  qed
  have b: "outcome (startSwitch self uuid maxWait s) = Inr True
             \<and> checks self (requests (startSwitch self uuid maxWait s)) = k + 1"
    if k: "k \<le> nat maxWait"
      and before: "\<forall>j < k. outcome (isConnectedToMux self uuid ((tick ^^ j) s)) = Inr False"
      and hit: "outcome (isConnectedToMux self uuid ((tick ^^ k) s)) = Inr True" for k
  proof -
    have f1: "\<forall>j < k. outcome (isConnectedToMux self uuid ((tick ^^ j) ?s1)) = Inr False"
      using before by (simp only: same)
    have f2: "outcome (isConnectedToMux self uuid ((tick ^^ k) ?s1)) = Inr True"
      using hit by (simp only: same)
    have f3: "int k \<le> maxWait - 0"
      using k mw by simp
    note w = wait_loop_found [OF f1 f2 f3, THEN conjunct1]
      wait_loop_found [OF f1 f2 f3, THEN conjunct2, THEN conjunct1]
      wait_loop_found [OF f1 f2 f3, THEN conjunct2, THEN conjunct2]
    have acc: "\<not> faulty ((tick ^^ k) ?s1) ev" for ev
      by (simp add: faulty_ticks faulty_store_set accept)
    show ?thesis by (simp add: defs w invoke_set_eval acc accept)
  qed
  show ?thesis using a b by blast
qed

theorem startSwitch_wait_witness:
  "outcome (isSwitch demo (JStr ''sw'') stopped_store) = Inr True
   \<and> outcome (isRunning demo (JStr ''sw'') stopped_store) = Inr False
   \<and> outcome (startSwitch demo (JStr ''sw'') 2 stopped_store) = Inr False
   \<and> checks demo (requests (startSwitch demo (JStr ''sw'') 2 stopped_store)) = 3
   \<and> outcome (isSwitch demo (JStr ''sw'') connecting_store) = Inr True
   \<and> outcome (isRunning demo (JStr ''sw'') connecting_store) = Inr False
   \<and> outcome (isConnectedToMux demo (JStr ''sw'') ((tick ^^ 2) connecting_store)) = Inr True
   \<and> outcome (startSwitch demo (JStr ''sw'') 10 connecting_store) = Inr True
   \<and> checks demo (requests (startSwitch demo (JStr ''sw'') 10 connecting_store)) = 3"
proof -
  have d1: "outcome (isSwitch demo (JStr ''sw'') stopped_store) = Inr True"
    and r1: "outcome (isRunning demo (JStr ''sw'') stopped_store) = Inr False"
    and d2: "outcome (isSwitch demo (JStr ''sw'') connecting_store) = Inr True"
    and r2: "outcome (isRunning demo (JStr ''sw'') connecting_store) = Inr False"
    by code_simp+
  have a1: "\<not> faulty stopped_store ev" for ev
    by (simp add: stopped_store_def store_of_def accepting_def)
  have a2: "\<not> faulty connecting_store ev" for ev
    by (simp add: connecting_store_def stopped_store_def store_of_def accepting_def)
  have n0: "outcome (isConnectedToMux demo (JStr ''sw'') ((tick ^^ 0) stopped_store)) = Inr False"
    and n1: "outcome (isConnectedToMux demo (JStr ''sw'') ((tick ^^ 1) stopped_store)) = Inr False"
    and n2: "outcome (isConnectedToMux demo (JStr ''sw'') ((tick ^^ 2) stopped_store)) = Inr False"
    and c0: "outcome (isConnectedToMux demo (JStr ''sw'') ((tick ^^ 0) connecting_store)) = Inr False"
    and c1: "outcome (isConnectedToMux demo (JStr ''sw'') ((tick ^^ 1) connecting_store)) = Inr False"
    and c2: "outcome (isConnectedToMux demo (JStr ''sw'') ((tick ^^ 2) connecting_store)) = Inr True"
    by code_simp+
  have never: "\<forall>j \<le> nat 2. outcome (isConnectedToMux demo (JStr ''sw'') ((tick ^^ j) stopped_store))
                 = Inr False"
  proof (intro allI impI)
    fix j :: nat assume "j \<le> nat 2"
    then consider "j = 0" | "j = 1" | "j = 2" by force
    then show "outcome (isConnectedToMux demo (JStr ''sw'') ((tick ^^ j) stopped_store)) = Inr False"
      using n0 n1 n2 by cases simp_all
  qed
  have before: "\<forall>j < 2. outcome (isConnectedToMux demo (JStr ''sw'') ((tick ^^ j) connecting_store))
                  = Inr False"
  proof (intro allI impI)
    fix j :: nat assume "j < 2"
    then consider "j = 0" | "j = 1" by force
    then show "outcome (isConnectedToMux demo (JStr ''sw'') ((tick ^^ j) connecting_store)) = Inr False"
      using c0 c1 by cases simp_all
  qed
  have x: "outcome (startSwitch demo (JStr ''sw'') 2 stopped_store) = Inr False
           \<and> checks demo (requests (startSwitch demo (JStr ''sw'') 2 stopped_store)) = nat 2 + 1"
    using startSwitch_wait [OF d1 r1 a1, of 2, THEN conjunct1] never by simp
  have y: "outcome (startSwitch demo (JStr ''sw'') 10 connecting_store) = Inr True
           \<and> checks demo (requests (startSwitch demo (JStr ''sw'') 10 connecting_store)) = 2 + 1"
    using startSwitch_wait [OF d2 r2 a2, of 10, THEN conjunct2, rule_format, of 2] before c2 by simp
  show ?thesis
    using d1 r1 d2 r2 c2 x y by simp
qed

end
